theory Spec2Isabelle
  imports Main "HOL-Library.AList"
begin

section \<open>Recording bot orders: \<open>db_utils.py\<close>\<close>

subsection \<open>Python values and the items of an order\<close>

text \<open>
  The values the depletion call hands back to \<open>insert_orders_from_bot\<close> and the values
  the latter returns: \<open>None\<close>, booleans, integers and strings, with Python's truth
  value (\<open>not v\<close> is \<open>\<not> truthy v\<close>).
\<close>

datatype pyval = PyNone | PyBool bool | PyInt int | PyStr string

fun truthy :: "pyval \<Rightarrow> bool" where
  "truthy PyNone = False"
| "truthy (PyBool b) = b"
| "truthy (PyInt i) = (i \<noteq> 0)"
| "truthy (PyStr s) = (s \<noteq> [])"

text \<open>\<open>mysql.connector.Error\<close>, the only exception the module names.\<close>

datatype error = MySQLError

text \<open>An element of \<open>order_data\<close>: the code reads \<open>item.item_name\<close> and \<open>item.quantity\<close>.\<close>

record item =
  item_name :: string
  quantity :: int

text \<open>
  \<open>str.lower()\<close>. A character is the code point it holds, below 256. Among these code
  points the capital letters are A to Z (65 to 90) and the capitals of Latin-1 (192 to 222,
  without the multiplication sign 215); Python maps each of them to the code point 32 above
  it, and keeps every other code point below 256.
\<close>

definition is_capital :: "char \<Rightarrow> bool" where
  "is_capital c =
     (let n = of_char c :: nat
      in (65 \<le> n \<and> n \<le> 90) \<or> (192 \<le> n \<and> n \<le> 222 \<and> n \<noteq> 215))"

definition lower_char :: "char \<Rightarrow> char" where
  "lower_char c = (if is_capital c then char_of (of_char c + 32 :: nat) else c)"

definition lower :: "string \<Rightarrow> string" where
  "lower s = map lower_char s"

subsection \<open>The database behind the connection\<close>

text \<open>
  The four tables the queries of the module touch. \<open>Meals\<close> holds the rows
  \<open>(name, meal_id)\<close>, \<open>Recipe_Ingredients\<close> the rows
  \<open>(meal_id, ingredient_id, quantity per unit of the meal)\<close>, \<open>Ingredients\<close> is keyed
  by \<open>ingredient_id\<close>, and a row of \<open>Order_Items\<close> is \<open>(order_id, meal_id, quantity)\<close>.
  Rows inserted and not yet committed wait in \<open>uncommitted\<close>; \<open>conn.commit()\<close> moves
  them to \<open>Order_Items\<close>.
\<close>

record ingredient_row =
  ingredient_name :: string
  current_inventory :: int
  unit :: string

type_synonym order_line = "string \<times> int \<times> int"

record db =
  Meals :: "(string \<times> int) list"
  Recipe_Ingredients :: "(int \<times> int \<times> int) list"
  Ingredients :: "int \<rightharpoonup> ingredient_row"
  Order_Items :: "order_line list"
  uncommitted :: "order_line list"

text \<open>
  What the function does to its collaborators, in order: the statements it executes on the
  cursor, the commit, and the call of \<open>deplete_inventory_from_order\<close>.
\<close>

datatype access =
    Select_Meals
  | Select_Recipe int
  | Select_Inventory int
  | Update_Inventory int
  | Call_deplete
  | Insert_Order_Items "order_line list"
  | Commit

text \<open>The lines the module prints.\<close>

datatype msg =
    Msg_no_connection
  | Msg_meal_mapping_error
  | Msg_inventory_error int
  | Msg_meal_not_found string
  | Msg_pre_check
  | Msg_before int ingredient_row
  | Msg_post_check
  | Msg_after int ingredient_row
  | Msg_saved nat string
  | Msg_no_valid_items

text \<open>
  The world a call runs in: the database, which data accesses raise
  \<open>mysql.connector.Error\<close> (\<open>faulty\<close>), the accesses made so far (\<open>trace\<close>) and the
  standard output. \<open>conn\<close> itself is \<open>None\<close> or a handle to this database.
\<close>

record world =
  database :: db
  faulty :: "access \<Rightarrow> bool"
  trace :: "access list"
  stdout :: "msg list"

datatype connection = MySQLConnection

text \<open>
  \<open>deplete_inventory_from_order(order_data, conn=conn)\<close> is imported from the module
  \<open>inventory_depletion\<close>; to \<open>insert_orders_from_bot\<close> it is a function of the batch
  and the database that returns a value, or raises, and leaves a database.
\<close>

type_synonym deplete_fn = "item list \<Rightarrow> db \<Rightarrow> (error + pyval) \<times> db"

definition print :: "msg \<Rightarrow> world \<Rightarrow> world" where
  "print m w = w\<lparr>stdout := stdout w @ [m]\<rparr>"

text \<open>\<open>cursor.execute\<close> and \<open>conn.commit\<close>: the access is attempted, and raises if faulty.\<close>

definition execute :: "access \<Rightarrow> world \<Rightarrow> (error + unit) \<times> world" where
  "execute q w =
     (let w' = w\<lparr>trace := trace w @ [q]\<rparr>
      in if faulty w q then (Inl MySQLError, w') else (Inr (), w'))"

subsection \<open>\<open>get_ingredient_current_inventory\<close>\<close>

definition get_ingredient_current_inventory ::
  "int \<Rightarrow> connection option \<Rightarrow> world \<Rightarrow> ingredient_row option \<times> world" where
  "get_ingredient_current_inventory ingredient_id conn w =
     (case conn of
        None \<Rightarrow> (None, w)
      | Some c \<Rightarrow>
          (case execute (Select_Inventory ingredient_id) w of
             (Inl err, w') \<Rightarrow> (None, print (Msg_inventory_error ingredient_id) w')
           | (Inr u, w') \<Rightarrow> (Ingredients (database w') ingredient_id, w')))"

subsection \<open>\<open>insert_orders_from_bot\<close>\<close>

text \<open>
  The dictionary comprehension of line 38: a later row of \<open>Meals\<close> with the same lowered
  name replaces an earlier one.
\<close>

definition meal_name_to_id :: "(string \<times> int) list \<Rightarrow> (string \<rightharpoonup> int)" where
  "meal_name_to_id rows = foldl (\<lambda>m (name, meal_id). m(lower name \<mapsto> meal_id)) Map.empty rows"

text \<open>The loop of lines 46 to 56 over \<open>order_data\<close>, with \<open>orders_to_insert\<close> as accumulator.\<close>

fun resolve_items ::
  "(string \<rightharpoonup> int) \<Rightarrow> string \<Rightarrow> item list \<Rightarrow> order_line list \<Rightarrow> world
     \<Rightarrow> order_line list \<times> world" where
  "resolve_items m order_id [] orders_to_insert w = (orders_to_insert, w)"
| "resolve_items m order_id (it # rest) orders_to_insert w =
     (case m (lower (item_name it)) of
        Some meal_id \<Rightarrow>
          resolve_items m order_id rest (orders_to_insert @ [(order_id, meal_id, quantity it)]) w
      | None \<Rightarrow>
          resolve_items m order_id rest orders_to_insert (print (Msg_meal_not_found (item_name it)) w))"

text \<open>
  The recipe query of lines 68 to 73: the rows of \<open>Recipe_Ingredients\<close> of the meal, joined
  with \<open>Ingredients\<close>.
\<close>

definition recipe_query :: "db \<Rightarrow> int \<Rightarrow> (int \<times> string \<times> string) list" where
  "recipe_query d meal_id =
     List.map_filter
       (\<lambda>(m, ing_id, q).
          if m = meal_id
          then map_option (\<lambda>r. (ing_id, ingredient_name r, unit r)) (Ingredients d ing_id)
          else None)
       (Recipe_Ingredients d)"

text \<open>
  The loop of lines 65 to 76. \<open>ingredients_to_check\<close> is a Python dictionary: assigning to
  a key that is present keeps the key's place, a new key goes to the end. The test of
  line 67 is a truth test, so a meal whose identifier is 0 is passed over.
\<close>

fun gather_ingredients ::
  "(string \<rightharpoonup> int) \<Rightarrow> item list \<Rightarrow> (int \<times> string \<times> string) list \<Rightarrow> world
     \<Rightarrow> (error + (int \<times> string \<times> string) list) \<times> world" where
  "gather_ingredients m [] ingredients_to_check w = (Inr ingredients_to_check, w)"
| "gather_ingredients m (order_item # rest) ingredients_to_check w =
     (case m (lower (item_name order_item)) of
        None \<Rightarrow> gather_ingredients m rest ingredients_to_check w
      | Some meal_id_for_item \<Rightarrow>
          if meal_id_for_item = 0 then gather_ingredients m rest ingredients_to_check w
          else
            (case execute (Select_Recipe meal_id_for_item) w of
               (Inl err, w') \<Rightarrow> (Inl err, w')
             | (Inr u, w') \<Rightarrow>
                 gather_ingredients m rest
                   (foldl (\<lambda>acc (ing_id, ing_name, ing_unit).
                             AList.update ing_id (ing_name, ing_unit) acc)
                      ingredients_to_check (recipe_query (database w') meal_id_for_item))
                   w'))"

text \<open>The loop of lines 80 to 83.\<close>

fun fetch_inventories ::
  "connection option \<Rightarrow> int list \<Rightarrow> (int \<times> ingredient_row) list \<Rightarrow> world
     \<Rightarrow> (int \<times> ingredient_row) list \<times> world" where
  "fetch_inventories conn [] ingredients_before_depletion w = (ingredients_before_depletion, w)"
| "fetch_inventories conn (ing_id # rest) ingredients_before_depletion w =
     (case get_ingredient_current_inventory ing_id conn w of
        (None, w') \<Rightarrow> fetch_inventories conn rest ingredients_before_depletion w'
      | (Some inventory, w') \<Rightarrow>
          fetch_inventories conn rest (AList.update ing_id inventory ingredients_before_depletion) w')"

text \<open>The loop of lines 100 to 103.\<close>

fun report_after :: "connection option \<Rightarrow> int list \<Rightarrow> world \<Rightarrow> world" where
  "report_after conn [] w = w"
| "report_after conn (ing_id # rest) w =
     (case get_ingredient_current_inventory ing_id conn w of
        (None, w') \<Rightarrow> report_after conn rest w'
      | (Some inventory, w') \<Rightarrow> report_after conn rest (print (Msg_after ing_id inventory) w'))"

text \<open>Lines 60 to 86: the inventory levels before depletion, read and printed.\<close>

definition pre_depletion_check ::
  "(string \<rightharpoonup> int) \<Rightarrow> item list \<Rightarrow> connection option \<Rightarrow> world
     \<Rightarrow> (error + (int \<times> ingredient_row) list) \<times> world" where
  "pre_depletion_check m order_data conn w =
     (case gather_ingredients m order_data [] (print Msg_pre_check w) of
        (Inl err, w1) \<Rightarrow> (Inl err, w1)
      | (Inr ingredients_to_check, w1) \<Rightarrow>
          (case fetch_inventories conn (map fst ingredients_to_check) [] w1 of
             (ingredients_before_depletion, w2) \<Rightarrow>
               (Inr ingredients_before_depletion,
                w2\<lparr>stdout := stdout w2
                       @ map (\<lambda>(ing_id, inv_data). Msg_before ing_id inv_data)
                           ingredients_before_depletion\<rparr>)))"

text \<open>Lines 106 to 112: the insertion of the order lines, the commit and the report.\<close>

definition save_orders :: "order_line list \<Rightarrow> string \<Rightarrow> world \<Rightarrow> (error + pyval) \<times> world" where
  "save_orders orders_to_insert order_id w =
     (case execute (Insert_Order_Items orders_to_insert) w of
        (Inl err, w1) \<Rightarrow> (Inl err, w1)
      | (Inr u, w1) \<Rightarrow>
          (let w2 = w1\<lparr>database := (database w1)
                         \<lparr>uncommitted := uncommitted (database w1) @ orders_to_insert\<rparr>\<rparr>
           in case execute Commit w2 of
                (Inl err, w3) \<Rightarrow> (Inl err, w3)
              | (Inr u', w3) \<Rightarrow>
                  (Inr (PyStr ''ok''),
                   print (Msg_saved (length orders_to_insert) order_id)
                     (w3\<lparr>database := (database w3)
                           \<lparr>Order_Items := Order_Items (database w3) @ uncommitted (database w3),
                            uncommitted := []\<rparr>\<rparr>))))"

text \<open>Line 91: the call of the depletion function on the whole of \<open>order_data\<close>.\<close>

definition call_deplete :: "deplete_fn \<Rightarrow> item list \<Rightarrow> world \<Rightarrow> (error + pyval) \<times> world" where
  "call_deplete deplete order_data w =
     (case deplete order_data (database w) of
        (r, d) \<Rightarrow> (r, w\<lparr>database := d, trace := trace w @ [Call_deplete]\<rparr>))"

text \<open>
  Lines 58 to 117, the body under \<open>if orders_to_insert\<close>. The order identifier, which the
  code derives from the clock, is an argument; so is the depletion function, which the code
  imports. The third parameter of the Python function, \<open>ignorevar\<close>, is never read and has
  no counterpart.
\<close>

definition record_orders ::
  "deplete_fn \<Rightarrow> string \<Rightarrow> (string \<rightharpoonup> int) \<Rightarrow> item list \<Rightarrow> connection option
     \<Rightarrow> order_line list \<Rightarrow> world \<Rightarrow> (error + pyval) \<times> world" where
  "record_orders deplete order_id m order_data conn orders_to_insert w =
     (case pre_depletion_check m order_data conn w of
        (Inl err, w1) \<Rightarrow> (Inl err, w1)
      | (Inr ingredients_before_depletion, w1) \<Rightarrow>
          (case call_deplete deplete order_data w1 of
             (Inl err, w2) \<Rightarrow> (Inl err, w2)
           | (Inr deplete_status, w2) \<Rightarrow>
               if \<not> truthy deplete_status then (Inr (PyStr ''notok-err''), w2)
               else if deplete_status = PyStr ''not_enough'' then (Inr (PyStr ''not_enough''), w2)
               else
                 save_orders orders_to_insert order_id
                   (report_after conn (map fst ingredients_before_depletion)
                      (print Msg_post_check w2))))"

definition insert_orders_from_bot ::
  "deplete_fn \<Rightarrow> string \<Rightarrow> item list \<Rightarrow> connection option \<Rightarrow> world
     \<Rightarrow> (error + pyval) \<times> world" where
  "insert_orders_from_bot deplete order_id order_data conn w =
     (case conn of
        None \<Rightarrow> (Inr PyNone, print Msg_no_connection w)
      | Some c \<Rightarrow>
          (case execute Select_Meals w of
             (Inl err, w1) \<Rightarrow> (Inr PyNone, print Msg_meal_mapping_error w1)
           | (Inr u, w1) \<Rightarrow>
               (let m = meal_name_to_id (Meals (database w1))
                in case resolve_items m order_id order_data [] w1 of
                     (orders_to_insert, w2) \<Rightarrow>
                       if orders_to_insert \<noteq> []
                       then record_orders deplete order_id m order_data conn orders_to_insert w2
                       else (Inr (PyStr ''ok''), print Msg_no_valid_items w2))))"

subsection \<open>What the loops of \<open>insert_orders_from_bot\<close> compute\<close>

text \<open>
  Closed forms used to state the results: the \<open>(meal_id, quantity)\<close> pairs of the items
  whose lowered name is a key of the mapping, the names of the other items, and the meal
  identifiers for which the loop of lines 65 to 76 runs the recipe query.
\<close>

definition resolved_lines :: "(string \<rightharpoonup> int) \<Rightarrow> item list \<Rightarrow> (int \<times> int) list" where
  "resolved_lines m order_data =
     List.map_filter
       (\<lambda>it. map_option (\<lambda>meal_id. (meal_id, quantity it)) (m (lower (item_name it))))
       order_data"

definition unmatched_names :: "(string \<rightharpoonup> int) \<Rightarrow> item list \<Rightarrow> string list" where
  "unmatched_names m order_data =
     map item_name (filter (\<lambda>it. m (lower (item_name it)) = None) order_data)"

definition recipe_meals :: "(string \<rightharpoonup> int) \<Rightarrow> item list \<Rightarrow> int list" where
  "recipe_meals m order_data = filter (\<lambda>meal_id. meal_id \<noteq> 0) (map fst (resolved_lines m order_data))"



definition is_select :: "access \<Rightarrow> bool" where
  "is_select a = (case a of Select_Meals \<Rightarrow> True | Select_Recipe i \<Rightarrow> True
                   | Select_Inventory i \<Rightarrow> True | _ \<Rightarrow> False)"

definition is_recipe_query :: "access \<Rightarrow> bool" where
  "is_recipe_query a = (case a of Select_Recipe i \<Rightarrow> True | _ \<Rightarrow> False)"

definition is_warning :: "msg \<Rightarrow> bool" where
  "is_warning x = (case x of Msg_meal_not_found n \<Rightarrow> True | _ \<Rightarrow> False)"

section \<open>The depletion engine\<close>

text \<open>
  Modelled from the spec: the module \<open>inventory_depletion\<close> and its function
  \<open>deplete_inventory_from_order\<close> are imported by \<open>db_utils.py\<close> and are not among the
  source files. The three outcomes of section 4.4, and the values that stand for them at
  the gate of lines 93 to 96: a false value for the hard error, the string
  \<open>not_enough\<close> for insufficient stock, a true value otherwise.
\<close>

datatype outcome = Ok | Insufficient_stock | Hard_error

fun status_of :: "outcome \<Rightarrow> pyval" where
  "status_of Ok = PyBool True"
| "status_of Insufficient_stock = PyStr ''not_enough''"
| "status_of Hard_error = PyBool False"

text \<open>
  Modelled from the spec: the recipe expansion the absent \<open>deplete_inventory_from_order\<close>
  needs (section 4.2 with the per-unit quantity of section 3): the
  \<open>(ingredient, quantity per unit)\<close> pairs of a meal.
\<close>

definition recipe_lines :: "db \<Rightarrow> int \<Rightarrow> (int \<times> int) list" where
  "recipe_lines d meal_id =
     List.map_filter (\<lambda>(m, ing_id, q). if m = meal_id then Some (ing_id, q) else None)
       (Recipe_Ingredients d)"

text \<open>
  Modelled from the spec: the mapping from ingredient to total required quantity of step 1 of
  section 4.4, absent with \<open>deplete_inventory_from_order\<close>, kept as a list of pairs with one
  entry per ingredient. \<open>demand_of\<close> reads the total of an ingredient, 0 if it has no entry.
\<close>

definition demand_of :: "(int \<times> int) list \<Rightarrow> int \<Rightarrow> int" where
  "demand_of demand ing_id = (case map_of demand ing_id of None \<Rightarrow> 0 | Some x \<Rightarrow> x)"

text \<open>
  Modelled from the spec: the accumulation of step 1 of section 4.4, absent with
  \<open>deplete_inventory_from_order\<close>: an amount is added to the total of its ingredient.
\<close>

definition add_demand :: "int \<Rightarrow> int \<Rightarrow> (int \<times> int) list \<Rightarrow> (int \<times> int) list" where
  "add_demand ing_id amount demand = AList.update ing_id (demand_of demand ing_id + amount) demand"

text \<open>
  Modelled from the spec: step 1 of section 4.4, absent with \<open>deplete_inventory_from_order\<close>.
  Every resolved line multiplies the per-unit quantities of its meal's recipe by the
  ordered quantity, and all of it is accumulated into one mapping from ingredient to total
  across the whole order.
\<close>

definition aggregate_demand :: "db \<Rightarrow> (int \<times> int) list \<Rightarrow> (int \<times> int) list" where
  "aggregate_demand d lines =
     foldl (\<lambda>demand (meal_id, qty).
              foldl (\<lambda>dm (ing_id, per_unit). add_demand ing_id (per_unit * qty) dm)
                demand (recipe_lines d meal_id))
       [] lines"

text \<open>
  Modelled from the spec: step 2 of section 4.4, absent with \<open>deplete_inventory_from_order\<close>.
  The stock of every ingredient of the demand is read; an ingredient the ledger does not
  know gives no data and does not abort (section 4.3).
\<close>

definition sufficient :: "db \<Rightarrow> (int \<times> int) list \<Rightarrow> bool" where
  "sufficient d demand =
     list_all (\<lambda>(ing_id, required).
                 case Ingredients d ing_id of
                   None \<Rightarrow> True
                 | Some r \<Rightarrow> required \<le> current_inventory r)
       demand"

text \<open>
  Modelled from the spec: the ledger's \<open>decrement\<close> of section 4.3, absent with the module
  \<open>inventory_depletion\<close>. It does not check again.
\<close>

definition decrement :: "int \<Rightarrow> int \<Rightarrow> db \<Rightarrow> db" where
  "decrement ing_id amount d =
     (case Ingredients d ing_id of
        None \<Rightarrow> d
      | Some r \<Rightarrow>
          d\<lparr>Ingredients := (Ingredients d)
               (ing_id \<mapsto> r\<lparr>current_inventory := current_inventory r - amount\<rparr>)\<rparr>)"

text \<open>
  Modelled from the spec: step 3 of section 4.4, absent with \<open>deplete_inventory_from_order\<close>.
  Each ingredient is decremented by its total; a fault of the ledger stops the loop with
  the hard error, and the decrements already applied stay.
\<close>

fun decrement_all :: "(access \<Rightarrow> bool) \<Rightarrow> (int \<times> int) list \<Rightarrow> db \<Rightarrow> outcome \<times> db" where
  "decrement_all flt [] d = (Ok, d)"
| "decrement_all flt ((ing_id, required) # rest) d =
     (if flt (Update_Inventory ing_id) then (Hard_error, d)
      else decrement_all flt rest (decrement ing_id required d))"

text \<open>
  Modelled from the spec: the Depletion Engine of section 4.4, which is the absent function
  \<open>deplete_inventory_from_order\<close>. It resolves the items as the Catalog Resolver does,
  aggregates the demand, checks it against the stock and rejects the whole batch if one
  ingredient falls short, and only then decrements. A data-access fault during lookup,
  check or decrement is the hard error (section 7). \<open>flt\<close> tells which accesses fault.
\<close>

definition depletion_engine :: "(access \<Rightarrow> bool) \<Rightarrow> item list \<Rightarrow> db \<Rightarrow> outcome \<times> db" where
  "depletion_engine flt order_data d =
     (if flt Select_Meals then (Hard_error, d)
      else
        let lines = resolved_lines (meal_name_to_id (Meals d)) order_data
        in if list_ex (\<lambda>(meal_id, qty). flt (Select_Recipe meal_id)) lines then (Hard_error, d)
           else
             let demand = aggregate_demand d lines
             in if list_ex (\<lambda>(ing_id, required). flt (Select_Inventory ing_id)) demand
                then (Hard_error, d)
                else if \<not> sufficient d demand then (Insufficient_stock, d)
                else decrement_all flt demand d)"

text \<open>
  Modelled from the spec: the absent \<open>deplete_inventory_from_order\<close> as
  \<open>insert_orders_from_bot\<close> calls it: the engine's outcome as the value the gate reads, and
  the database the engine leaves. It does not raise; its faults are hard errors.
\<close>

definition deplete_inventory_from_order :: "(access \<Rightarrow> bool) \<Rightarrow> deplete_fn" where
  "deplete_inventory_from_order flt order_data d =
     (case depletion_engine flt order_data d of (out, d') \<Rightarrow> (Inr (status_of out), d'))"

text \<open>
  Modelled from the spec: the aggregated demand of the glossary, the total quantity of an
  ingredient required across all resolved lines of a batch, written as a sum over the lines
  and over the recipe of each line's meal. It is what \<open>aggregate_demand\<close> is compared with.
\<close>

definition total_demand :: "db \<Rightarrow> (int \<times> int) list \<Rightarrow> int \<Rightarrow> int" where
  "total_demand d lines ing_id =
     sum_list (map (\<lambda>(meal_id, qty).
                      sum_list (map (\<lambda>(i, per_unit). if i = ing_id then per_unit * qty else 0)
                                  (recipe_lines d meal_id)))
                 lines)"

text \<open>
  Modelled from the spec: the ingredients of the aggregated demand, those that the recipe of
  some resolved line's meal names.
\<close>

definition involved :: "db \<Rightarrow> (int \<times> int) list \<Rightarrow> int set" where
  "involved d lines = (\<Union>(meal_id, qty) \<in> set lines. fst ` set (recipe_lines d meal_id))"

text \<open>
  Modelled from the spec: the invariant of section 3 on the ledger, which the absent module
  \<open>inventory_depletion\<close> is to keep: no stock is negative.
\<close>

definition stock_nonneg :: "db \<Rightarrow> bool" where
  "stock_nonneg d = (\<forall>r \<in> ran (Ingredients d). 0 \<le> current_inventory r)"

section \<open>Example data\<close>

text \<open>
  The catalogue of section 8 of the specification: the meal Pizza with identifier 1 needs
  2 units of the ingredient Cheese (identifier 7, stock 10) per pizza.
\<close>

definition cheese :: ingredient_row where
  "cheese = \<lparr>ingredient_name = ''Cheese'', current_inventory = 10, unit = ''g''\<rparr>"

definition pizza_db :: db where
  "pizza_db =
     \<lparr>Meals = [(''Pizza'', 1)],
      Recipe_Ingredients = [(1, 7, 2)],
      Ingredients = [7 \<mapsto> cheese],
      Order_Items = [],
      uncommitted = []\<rparr>"

definition pizza_world :: world where
  "pizza_world = \<lparr>database = pizza_db, faulty = (\<lambda>a. False), trace = [], stdout = []\<rparr>"

definition order_of :: "string \<Rightarrow> int \<Rightarrow> item" where
  "order_of name qty = \<lparr>item_name = name, quantity = qty\<rparr>"

text \<open>
  A connection on which no access raises, and two depletion functions that leave the
  database alone and hand back a true value other than \<open>not_enough\<close>, and a false one.
\<close>

definition no_faults :: "access \<Rightarrow> bool" where
  "no_faults a = False"

definition truthy_deplete :: deplete_fn where
  "truthy_deplete order_data d = (Inr (PyInt 7), d)"

definition falsy_deplete :: deplete_fn where
  "falsy_deplete order_data d = (Inr (PyStr []), d)"

text \<open>A depletion function that reports insufficient stock and leaves the database alone.\<close>

definition not_enough_deplete :: deplete_fn where
  "not_enough_deplete order_data d = (Inr (PyStr ''not_enough''), d)"


section \<open>The loops and the parts of \<open>insert_orders_from_bot\<close>\<close>






lemma resolve_items_eq:
  "resolve_items m oid xs acc w =
     (acc @ map (\<lambda>(meal_id, q). (oid, meal_id, q)) (resolved_lines m xs),
      w\<lparr>stdout := stdout w @ map Msg_meal_not_found (unmatched_names m xs)\<rparr>)"
proof (induction xs arbitrary: acc w)
  case Nil
  show ?case by (simp add: resolved_lines_def unmatched_names_def List.map_filter_def)
next
  case (Cons it rest)
  show ?case
    by (cases "m (lower (item_name it))")
       (simp_all add: Cons.IH resolved_lines_def unmatched_names_def List.map_filter_def print_def)
qed

lemma gather_ingredients_ok:
  assumes "\<forall>meal_id \<in> set (recipe_meals m xs). \<not> faulty w (Select_Recipe meal_id)"
  shows "\<exists>chk. gather_ingredients m xs acc w
           = (Inr chk, w\<lparr>trace := trace w @ map Select_Recipe (recipe_meals m xs)\<rparr>)"
  using assms
proof (induction xs arbitrary: acc w)
  case Nil
  show ?case by (simp add: recipe_meals_def resolved_lines_def List.map_filter_def)
next
  case (Cons it rest)
  show ?case
  proof (cases "m (lower (item_name it))")
    case None
    then have rm: "recipe_meals m (it # rest) = recipe_meals m rest"
      by (simp add: recipe_meals_def resolved_lines_def List.map_filter_def)
    with Cons.prems have "\<forall>meal_id \<in> set (recipe_meals m rest). \<not> faulty w (Select_Recipe meal_id)"
      by simp
    from Cons.IH [OF this, of acc] show ?thesis using None rm by simp
  next
    case (Some i)
    show ?thesis
    proof (cases "i = 0")
      case True
      with Some have rm: "recipe_meals m (it # rest) = recipe_meals m rest"
        by (simp add: recipe_meals_def resolved_lines_def List.map_filter_def)
      with Cons.prems have "\<forall>meal_id \<in> set (recipe_meals m rest). \<not> faulty w (Select_Recipe meal_id)"
        by simp
      from Cons.IH [OF this, of acc] show ?thesis using Some True rm by simp
    next
      case False
      with Some have rm: "recipe_meals m (it # rest) = i # recipe_meals m rest"
        by (simp add: recipe_meals_def resolved_lines_def List.map_filter_def)
      define w' where "w' = w\<lparr>trace := trace w @ [Select_Recipe i]\<rparr>"
      from Cons.prems rm have nf: "\<not> faulty w (Select_Recipe i)"
        and "\<forall>meal_id \<in> set (recipe_meals m rest). \<not> faulty w' (Select_Recipe meal_id)"
        by (simp_all add: w'_def)
      from Cons.IH [OF this(2)] nf show ?thesis
        using Some False rm by (simp add: execute_def w'_def)
    qed
  qed
qed

lemma get_inventory_eq:
  "get_ingredient_current_inventory i (Some c) w =
     (if faulty w (Select_Inventory i) then None else Ingredients (database w) i,
      w\<lparr>trace := trace w @ [Select_Inventory i],
        stdout := stdout w @ (if faulty w (Select_Inventory i) then [Msg_inventory_error i] else [])\<rparr>)"
  by (simp add: get_ingredient_current_inventory_def execute_def print_def)


lemma fetch_inventories_database [simp]:
  "database (snd (fetch_inventories (Some c) ids acc w)) = database w"
  by (induction ids arbitrary: acc w) (simp_all add: get_inventory_eq split: option.splits)

lemma fetch_inventories_faulty [simp]:
  "faulty (snd (fetch_inventories (Some c) ids acc w)) = faulty w"
  by (induction ids arbitrary: acc w) (simp_all add: get_inventory_eq split: option.splits)

lemma fetch_inventories_trace [simp]:
  "trace (snd (fetch_inventories (Some c) ids acc w)) = trace w @ map Select_Inventory ids"
  by (induction ids arbitrary: acc w) (simp_all add: get_inventory_eq split: option.splits)

lemma fetch_inventories_warnings [simp]:
  "filter is_warning (stdout (snd (fetch_inventories (Some c) ids acc w)))
     = filter is_warning (stdout w)"
  by (induction ids arbitrary: acc w)
     (simp_all add: get_inventory_eq is_warning_def split: option.splits)

lemma report_after_database [simp]:
  "database (report_after (Some c) ids w) = database w"
  by (induction ids arbitrary: w) (simp_all add: get_inventory_eq print_def split: option.splits)

lemma report_after_faulty [simp]:
  "faulty (report_after (Some c) ids w) = faulty w"
  by (induction ids arbitrary: w) (simp_all add: get_inventory_eq print_def split: option.splits)

lemma report_after_trace [simp]:
  "trace (report_after (Some c) ids w) = trace w @ map Select_Inventory ids"
  by (induction ids arbitrary: w) (simp_all add: get_inventory_eq print_def split: option.splits)

lemma report_after_warnings [simp]:
  "filter is_warning (stdout (report_after (Some c) ids w)) = filter is_warning (stdout w)"
  by (induction ids arbitrary: w)
     (simp_all add: get_inventory_eq print_def is_warning_def split: option.splits)

lemma pre_depletion_check_ok:
  assumes "\<forall>meal_id \<in> set (recipe_meals m xs). \<not> faulty w (Select_Recipe meal_id)"
  shows "\<exists>b w1 ids. pre_depletion_check m xs (Some c) w = (Inr b, w1)
           \<and> database w1 = database w \<and> faulty w1 = faulty w
           \<and> trace w1 = trace w @ map Select_Recipe (recipe_meals m xs) @ map Select_Inventory ids
           \<and> filter is_warning (stdout w1) = filter is_warning (stdout w)"
proof -
  define w0 where "w0 = print Msg_pre_check w"
  have "\<forall>meal_id \<in> set (recipe_meals m xs). \<not> faulty w0 (Select_Recipe meal_id)"
    using assms by (simp add: w0_def print_def)
  from gather_ingredients_ok [OF this, of "[]"] obtain chk where
    g: "gather_ingredients m xs [] w0
          = (Inr chk, w0\<lparr>trace := trace w0 @ map Select_Recipe (recipe_meals m xs)\<rparr>)"
    by blast
  define w1 where "w1 = w0\<lparr>trace := trace w0 @ map Select_Recipe (recipe_meals m xs)\<rparr>"
  define f where "f = fetch_inventories (Some c) (map fst chk) [] w1"
  define w2 where
    "w2 = (snd f)\<lparr>stdout := stdout (snd f) @ map (\<lambda>(ing_id, inv_data). Msg_before ing_id inv_data) (fst f)\<rparr>"
  have eq: "pre_depletion_check m xs (Some c) w = (Inr (fst f), w2)"
    by (simp add: pre_depletion_check_def w0_def [symmetric] g w1_def [symmetric]
          f_def [symmetric] w2_def case_prod_beta)
  have nowarn: "filter is_warning (map (\<lambda>(ing_id, inv_data). Msg_before ing_id inv_data) l) = []" for l
    by (induction l) (auto simp: is_warning_def)
  have "database w2 = database w" "faulty w2 = faulty w"
    by (simp_all add: w2_def f_def w1_def w0_def print_def)
  moreover have "trace w2 = trace w @ map Select_Recipe (recipe_meals m xs)
                   @ map Select_Inventory (map fst chk)"
    by (simp add: w2_def f_def w1_def w0_def print_def)
  moreover have "filter is_warning (stdout w2) = filter is_warning (stdout w)"
    by (simp add: w2_def nowarn) (simp add: f_def w1_def w0_def print_def is_warning_def)
  ultimately show ?thesis using eq by blast
qed


lemma save_orders_ok:
  assumes "\<not> faulty w (Insert_Order_Items orders)" "\<not> faulty w Commit"
  shows "save_orders orders oid w =
           (Inr (PyStr ''ok''),
            w\<lparr>database := (database w)
                 \<lparr>Order_Items := Order_Items (database w) @ uncommitted (database w) @ orders,
                  uncommitted := []\<rparr>,
              trace := trace w @ [Insert_Order_Items orders, Commit],
              stdout := stdout w @ [Msg_saved (length orders) oid]\<rparr>)"
  using assms by (simp add: save_orders_def execute_def print_def)

lemma record_orders_stopped:
  assumes nf: "\<forall>meal_id \<in> set (recipe_meals m xs). \<not> faulty w (Select_Recipe meal_id)"
    and dep: "deplete xs (database w) = (r, d)"
    and stop: "case r of Inl e \<Rightarrow> True | Inr st \<Rightarrow> \<not> truthy st \<or> st = PyStr ''not_enough''"
  shows "\<exists>w' ids. record_orders deplete oid m xs (Some c) orders w =
            ((case r of Inl e \<Rightarrow> Inl e
              | Inr st \<Rightarrow> if \<not> truthy st then Inr (PyStr ''notok-err'') else Inr (PyStr ''not_enough'')), w')
          \<and> database w' = d \<and> faulty w' = faulty w
          \<and> trace w' = trace w @ map Select_Recipe (recipe_meals m xs) @ map Select_Inventory ids
                         @ [Call_deplete]
          \<and> filter is_warning (stdout w') = filter is_warning (stdout w)"
proof -
  from pre_depletion_check_ok [OF nf, of c] obtain b w1 ids where
    pre: "pre_depletion_check m xs (Some c) w = (Inr b, w1)"
    and w1: "database w1 = database w" "faulty w1 = faulty w"
      "trace w1 = trace w @ map Select_Recipe (recipe_meals m xs) @ map Select_Inventory ids"
      "filter is_warning (stdout w1) = filter is_warning (stdout w)"
    by blast
  define w2 where "w2 = w1\<lparr>database := d, trace := trace w1 @ [Call_deplete]\<rparr>"
  have cd: "call_deplete deplete xs w1 = (r, w2)"
    by (simp add: call_deplete_def w1 dep w2_def)
  have "record_orders deplete oid m xs (Some c) orders w =
            ((case r of Inl e \<Rightarrow> Inl e
              | Inr st \<Rightarrow> if \<not> truthy st then Inr (PyStr ''notok-err'') else Inr (PyStr ''not_enough'')), w2)"
    using stop by (auto simp: record_orders_def pre cd split: sum.splits)
  moreover have "database w2 = d" "faulty w2 = faulty w"
    "trace w2 = trace w @ map Select_Recipe (recipe_meals m xs) @ map Select_Inventory ids @ [Call_deplete]"
    "filter is_warning (stdout w2) = filter is_warning (stdout w)"
    by (simp_all add: w2_def w1)
  ultimately show ?thesis by blast
qed

lemma record_orders_saved:
  assumes nf: "\<forall>meal_id \<in> set (recipe_meals m xs). \<not> faulty w (Select_Recipe meal_id)"
    and dep: "deplete xs (database w) = (Inr st, d)"
    and go: "truthy st" "st \<noteq> PyStr ''not_enough''"
    and nw: "\<not> faulty w (Insert_Order_Items orders)" "\<not> faulty w Commit"
  shows "\<exists>w' ids ids'. record_orders deplete oid m xs (Some c) orders w = (Inr (PyStr ''ok''), w')
          \<and> database w' = d\<lparr>Order_Items := Order_Items d @ uncommitted d @ orders, uncommitted := []\<rparr>
          \<and> faulty w' = faulty w
          \<and> trace w' = trace w @ map Select_Recipe (recipe_meals m xs) @ map Select_Inventory ids
                         @ [Call_deplete] @ map Select_Inventory ids'
                         @ [Insert_Order_Items orders, Commit]
          \<and> filter is_warning (stdout w') = filter is_warning (stdout w)"
proof -
  from pre_depletion_check_ok [OF nf, of c] obtain b w1 ids where
    pre: "pre_depletion_check m xs (Some c) w = (Inr b, w1)"
    and w1: "database w1 = database w" "faulty w1 = faulty w"
      "trace w1 = trace w @ map Select_Recipe (recipe_meals m xs) @ map Select_Inventory ids"
      "filter is_warning (stdout w1) = filter is_warning (stdout w)"
    by blast
  define w2 where "w2 = w1\<lparr>database := d, trace := trace w1 @ [Call_deplete]\<rparr>"
  have cd: "call_deplete deplete xs w1 = (Inr st, w2)"
    by (simp add: call_deplete_def w1 dep w2_def)
  define w3 where "w3 = report_after (Some c) (map fst b) (print Msg_post_check w2)"
  have w3: "database w3 = d" "faulty w3 = faulty w"
    "trace w3 = trace w @ map Select_Recipe (recipe_meals m xs) @ map Select_Inventory ids
                  @ [Call_deplete] @ map Select_Inventory (map fst b)"
    "filter is_warning (stdout w3) = filter is_warning (stdout w)"
    by (simp_all add: w3_def w2_def w1 print_def is_warning_def)
  define w4 where
    "w4 = w3\<lparr>database := (database w3)
                 \<lparr>Order_Items := Order_Items (database w3) @ uncommitted (database w3) @ orders,
                  uncommitted := []\<rparr>,
              trace := trace w3 @ [Insert_Order_Items orders, Commit],
              stdout := stdout w3 @ [Msg_saved (length orders) oid]\<rparr>"
  have nw3: "\<not> faulty w3 (Insert_Order_Items orders)" "\<not> faulty w3 Commit"
    using nw by (simp_all add: w3)
  have "record_orders deplete oid m xs (Some c) orders w = save_orders orders oid w3"
    using go by (simp add: record_orders_def pre cd w3_def)
  then have "record_orders deplete oid m xs (Some c) orders w = (Inr (PyStr ''ok''), w4)"
    by (simp add: save_orders_ok [OF nw3] w4_def)
  moreover have "database w4 = d\<lparr>Order_Items := Order_Items d @ uncommitted d @ orders, uncommitted := []\<rparr>"
    "faulty w4 = faulty w"
    "trace w4 = trace w @ map Select_Recipe (recipe_meals m xs) @ map Select_Inventory ids
                  @ [Call_deplete] @ map Select_Inventory (map fst b)
                  @ [Insert_Order_Items orders, Commit]"
    "filter is_warning (stdout w4) = filter is_warning (stdout w)"
    by (simp_all add: w4_def w3 is_warning_def)
  ultimately show ?thesis by blast
qed

lemma insert_connected:
  assumes "\<not> faulty w Select_Meals"
  shows "insert_orders_from_bot deplete oid xs (Some c) w =
     (let m = meal_name_to_id (Meals (database w));
          w2 = w\<lparr>trace := trace w @ [Select_Meals],
                 stdout := stdout w @ map Msg_meal_not_found (unmatched_names m xs)\<rparr>
      in if resolved_lines m xs \<noteq> []
         then record_orders deplete oid m xs (Some c)
                (map (\<lambda>(meal_id, q). (oid, meal_id, q)) (resolved_lines m xs)) w2
         else (Inr (PyStr ''ok''), print Msg_no_valid_items w2))"
  using assms by (simp add: insert_orders_from_bot_def execute_def resolve_items_eq Let_def)

subsection \<open>Facts that hold on every path\<close>


lemma execute_eq:
  "execute q w = (if faulty w q then Inl MySQLError else Inr (), w\<lparr>trace := trace w @ [q]\<rparr>)"
  by (simp add: execute_def Let_def)

lemma gather_ingredients_database [simp]:
  "database (snd (gather_ingredients m xs acc w)) = database w"
  by (induction xs arbitrary: acc w) (simp_all add: execute_eq split: option.splits)

lemma gather_ingredients_faulty [simp]:
  "faulty (snd (gather_ingredients m xs acc w)) = faulty w"
  by (induction xs arbitrary: acc w) (simp_all add: execute_eq split: option.splits)

lemma gather_ingredients_stdout [simp]:
  "stdout (snd (gather_ingredients m xs acc w)) = stdout w"
  by (induction xs arbitrary: acc w) (simp_all add: execute_eq split: option.splits)

lemma gather_ingredients_writes [simp]:
  "filter (\<lambda>a. \<not> is_select a) (trace (snd (gather_ingredients m xs acc w)))
     = filter (\<lambda>a. \<not> is_select a) (trace w)"
  by (induction xs arbitrary: acc w) (simp_all add: execute_eq is_select_def split: option.splits)

lemma fetch_inventories_writes [simp]:
  "filter (\<lambda>a. \<not> is_select a) (trace (snd (fetch_inventories (Some c) ids acc w)))
     = filter (\<lambda>a. \<not> is_select a) (trace w)"
  by (simp add: is_select_def)

lemma report_after_writes [simp]:
  "filter (\<lambda>a. \<not> is_select a) (trace (report_after (Some c) ids w))
     = filter (\<lambda>a. \<not> is_select a) (trace w)"
  by (simp add: is_select_def)

lemma pre_depletion_check_database [simp]:
  "database (snd (pre_depletion_check m xs (Some c) w)) = database w"
  by (simp add: pre_depletion_check_def print_def case_prod_beta split: sum.splits)

lemma pre_depletion_check_faulty [simp]:
  "faulty (snd (pre_depletion_check m xs (Some c) w)) = faulty w"
  by (simp add: pre_depletion_check_def print_def case_prod_beta split: sum.splits)

lemma no_warning_before [simp]:
  "filter is_warning (map (\<lambda>(ing_id, inv_data). Msg_before ing_id inv_data) l) = []"
  by (induction l) (auto simp: is_warning_def)

lemma pre_depletion_check_warnings [simp]:
  "filter is_warning (stdout (snd (pre_depletion_check m xs (Some c) w)))
     = filter is_warning (stdout w)"
  by (simp add: pre_depletion_check_def print_def case_prod_beta is_warning_def split: sum.splits)

lemma no_write_inventory [simp]:
  "filter (\<lambda>a. \<not> is_select a) (map (\<lambda>x. Select_Inventory (f x)) l) = []"
  by (induction l) (auto simp: is_select_def)

lemma pre_depletion_check_writes [simp]:
  "filter (\<lambda>a. \<not> is_select a) (trace (snd (pre_depletion_check m xs (Some c) w)))
     = filter (\<lambda>a. \<not> is_select a) (trace w)"
  by (simp add: pre_depletion_check_def print_def case_prod_beta comp_def split: sum.splits)

lemma save_orders_warnings [simp]:
  "filter is_warning (stdout (snd (save_orders orders oid w))) = filter is_warning (stdout w)"
  by (simp add: save_orders_def execute_eq print_def is_warning_def Let_def)

lemma save_orders_result:
  "fst (save_orders orders oid w) \<in> {Inl MySQLError, Inr (PyStr ''ok'')}"
  by (simp add: save_orders_def execute_eq Let_def)

lemma save_orders_Ingredients [simp]:
  "Ingredients (database (snd (save_orders orders oid w))) = Ingredients (database w)"
  by (simp add: save_orders_def execute_eq print_def Let_def)

lemma record_orders_warnings [simp]:
  "filter is_warning (stdout (snd (record_orders deplete oid m xs (Some c) orders w)))
     = filter is_warning (stdout w)"
  by (simp add: record_orders_def call_deplete_def case_prod_beta print_def is_warning_def
        split: sum.splits)

lemma error_is_MySQLError: "(e :: error) = MySQLError"
  by (cases e) simp

lemma record_orders_result:
  "fst (record_orders deplete oid m xs conn orders w)
     \<in> {Inl MySQLError, Inr (PyStr ''ok''), Inr (PyStr ''not_enough''), Inr (PyStr ''notok-err'')}"
  using save_orders_result
  by (auto simp: record_orders_def call_deplete_def case_prod_beta error_is_MySQLError
        split: sum.splits)

lemma record_orders_Ingredients:
  "Ingredients (database (snd (record_orders deplete oid m xs (Some c) orders w)))
     = Ingredients (database w)
   \<or> Ingredients (database (snd (record_orders deplete oid m xs (Some c) orders w)))
     = Ingredients (snd (deplete xs (database w)))"
  by (simp add: record_orders_def call_deplete_def case_prod_beta print_def split: sum.splits)

lemma no_write_recipe [simp]:
  "filter (\<lambda>a. \<not> is_select a) (map Select_Recipe l) = []"
  by (induction l) (auto simp: is_select_def)

lemma no_write_inventory' [simp]:
  "filter (\<lambda>a. \<not> is_select a) (map Select_Inventory l) = []"
  by (induction l) (auto simp: is_select_def)

lemma all_select_recipe [simp]: "list_all is_select (map Select_Recipe l)"
  by (induction l) (auto simp: is_select_def)

lemma all_select_inventory [simp]: "list_all is_select (map Select_Inventory l)"
  by (induction l) (auto simp: is_select_def)

lemma pizza_resolved:
  "resolved_lines (meal_name_to_id (Meals (database pizza_world))) [order_of ''Pizza'' 3] = [(1, 3)]"
  by (simp add: resolved_lines_def List.map_filter_def order_of_def pizza_world_def pizza_db_def
        meal_name_to_id_def)

lemma pizza_recipe_meals:
  "recipe_meals (meal_name_to_id (Meals (database pizza_world))) [order_of ''Pizza'' 3] = [1]"
  by (simp add: recipe_meals_def pizza_resolved)

lemma pizza_no_fault: "\<not> faulty pizza_world a"
  by (simp add: pizza_world_def)

lemma unmatched_all:
  "resolved_lines m xs = [] \<Longrightarrow> unmatched_names m xs = map item_name xs"
  by (induction xs)
     (auto simp: resolved_lines_def unmatched_names_def List.map_filter_def split: if_splits)

lemma recipe_queries_recipe [simp]:
  "filter is_recipe_query (map Select_Recipe l) = map Select_Recipe l"
  by (induction l) (auto simp: is_recipe_query_def)

lemma recipe_queries_inventory [simp]:
  "filter is_recipe_query (map Select_Inventory l) = []"
  by (induction l) (auto simp: is_recipe_query_def)

lemma save_orders_recipe_queries [simp]:
  "filter is_recipe_query (trace (snd (save_orders orders oid w)))
     = filter is_recipe_query (trace w)"
  by (simp add: save_orders_def execute_eq print_def is_recipe_query_def Let_def)

lemma record_orders_recipe_queries:
  assumes nf: "\<forall>meal_id \<in> set (recipe_meals m xs). \<not> faulty w (Select_Recipe meal_id)"
  shows "filter is_recipe_query (trace (snd (record_orders deplete oid m xs (Some c) orders w)))
           = filter is_recipe_query (trace w) @ map Select_Recipe (recipe_meals m xs)"
proof -
  from pre_depletion_check_ok [OF nf, of c] obtain b w1 ids where
    pre: "pre_depletion_check m xs (Some c) w = (Inr b, w1)"
    and w1: "trace w1 = trace w @ map Select_Recipe (recipe_meals m xs) @ map Select_Inventory ids"
    by blast
  show ?thesis
    by (simp add: record_orders_def pre call_deplete_def case_prod_beta w1 print_def
          is_recipe_query_def split: sum.splits)
qed



lemma warnings_not_found [simp]:
  "filter is_warning (map Msg_meal_not_found l) = map Msg_meal_not_found l"
  by (induction l) (auto simp: is_warning_def)


section \<open>The aggregation and the decrements of the depletion engine\<close>

lemma demand_of_add_demand:
  "demand_of (add_demand i a dm) j = demand_of dm j + (if i = j then a else 0)"
  by (simp add: demand_of_def add_demand_def update_conv')

lemma distinct_add_demand:
  "distinct (map fst dm) \<Longrightarrow> distinct (map fst (add_demand i a dm))"
  by (simp add: add_demand_def distinct_update)

lemma keys_add_demand:
  "fst ` set (add_demand i a dm) = insert i (fst ` set dm)"
  by (simp add: add_demand_def dom_update)

lemma demand_of_expand:
  "demand_of (foldl (\<lambda>dm (i, per_unit). add_demand i (per_unit * q) dm) dm0 rl) j
     = demand_of dm0 j + sum_list (map (\<lambda>(i, per_unit). if i = j then per_unit * q else 0) rl)"
proof (induction rl arbitrary: dm0)
  case Nil
  show ?case by simp
next
  case (Cons p rl)
  obtain i pu where p: "p = (i, pu)" by (cases p)
  show ?case by (simp add: p Cons.IH demand_of_add_demand)
qed

lemma distinct_expand:
  "distinct (map fst dm0)
     \<Longrightarrow> distinct (map fst (foldl (\<lambda>dm (i, per_unit). add_demand i (per_unit * q) dm) dm0 rl))"
proof (induction rl arbitrary: dm0)
  case Nil
  then show ?case by simp
next
  case (Cons p rl)
  obtain i pu where p: "p = (i, pu)" by (cases p)
  from Cons.prems have "distinct (map fst (add_demand i (pu * q) dm0))"
    by (rule distinct_add_demand)
  from Cons.IH [OF this] show ?case by (simp add: p)
qed

lemma keys_expand:
  "fst ` set (foldl (\<lambda>dm (i, per_unit). add_demand i (per_unit * q) dm) dm0 rl)
     = fst ` set dm0 \<union> fst ` set rl"
proof (induction rl arbitrary: dm0)
  case Nil
  show ?case by simp
next
  case (Cons p rl)
  obtain i pu where p: "p = (i, pu)" by (cases p)
  show ?case by (simp add: p Cons.IH keys_add_demand)
qed

lemma demand_of_lines:
  "demand_of (foldl (\<lambda>demand (meal_id, qty).
              foldl (\<lambda>dm (ing_id, per_unit). add_demand ing_id (per_unit * qty) dm)
                demand (recipe_lines d meal_id)) dm0 lines) j
     = demand_of dm0 j + total_demand d lines j"
proof (induction lines arbitrary: dm0)
  case Nil
  show ?case by (simp add: total_demand_def)
next
  case (Cons l lines)
  obtain mid q where l: "l = (mid, q)" by (cases l)
  show ?case by (simp add: l Cons.IH demand_of_expand total_demand_def)
qed

lemma distinct_lines:
  "distinct (map fst dm0)
     \<Longrightarrow> distinct (map fst (foldl (\<lambda>demand (meal_id, qty).
              foldl (\<lambda>dm (ing_id, per_unit). add_demand ing_id (per_unit * qty) dm)
                demand (recipe_lines d meal_id)) dm0 lines))"
proof (induction lines arbitrary: dm0)
  case Nil
  then show ?case by simp
next
  case (Cons l lines)
  obtain mid q where l: "l = (mid, q)" by (cases l)
  from Cons.prems
  have "distinct (map fst (foldl (\<lambda>dm (ing_id, per_unit). add_demand ing_id (per_unit * q) dm)
                dm0 (recipe_lines d mid)))"
    by (rule distinct_expand)
  from Cons.IH [OF this] show ?case by (simp add: l)
qed

lemma keys_lines:
  "fst ` set (foldl (\<lambda>demand (meal_id, qty).
              foldl (\<lambda>dm (ing_id, per_unit). add_demand ing_id (per_unit * qty) dm)
                demand (recipe_lines d meal_id)) dm0 lines)
     = fst ` set dm0 \<union> involved d lines"
proof (induction lines arbitrary: dm0)
  case Nil
  show ?case by (simp add: involved_def)
next
  case (Cons l lines)
  obtain mid q where l: "l = (mid, q)" by (cases l)
  show ?case by (simp add: l Cons.IH keys_expand involved_def Un_assoc)
qed

lemma demand_of_aggregate:
  "demand_of (aggregate_demand d lines) j = total_demand d lines j"
  by (simp add: aggregate_demand_def demand_of_lines) (simp add: demand_of_def)

lemma distinct_aggregate: "distinct (map fst (aggregate_demand d lines))"
  by (simp add: aggregate_demand_def distinct_lines)

lemma keys_aggregate: "fst ` set (aggregate_demand d lines) = involved d lines"
  by (simp add: aggregate_demand_def keys_lines)

lemma demand_entry:
  assumes "distinct (map fst demand)"
  shows "(j, x) \<in> set demand \<longleftrightarrow> j \<in> fst ` set demand \<and> x = demand_of demand j"
proof
  assume "(j, x) \<in> set demand"
  with assms have "map_of demand j = Some x" by simp
  then show "j \<in> fst ` set demand \<and> x = demand_of demand j"
    using \<open>(j, x) \<in> set demand\<close> by (force simp: demand_of_def)
next
  assume a: "j \<in> fst ` set demand \<and> x = demand_of demand j"
  then obtain y where y: "(j, y) \<in> set demand" by auto
  with assms have "map_of demand j = Some y" by simp
  with a have "x = y" by (simp add: demand_of_def)
  with y show "(j, x) \<in> set demand" by simp
qed

lemma aggregate_entry:
  "(j, x) \<in> set (aggregate_demand d lines) \<longleftrightarrow> j \<in> involved d lines \<and> x = total_demand d lines j"
  by (simp add: demand_entry [OF distinct_aggregate] keys_aggregate demand_of_aggregate)

lemma stock_nonneg_iff:
  "stock_nonneg d \<longleftrightarrow> (\<forall>j r. Ingredients d j = Some r \<longrightarrow> 0 \<le> current_inventory r)"
  by (auto simp: stock_nonneg_def ran_def)

lemma decrement_frame [simp]:
  "Meals (decrement i a d) = Meals d"
  "Recipe_Ingredients (decrement i a d) = Recipe_Ingredients d"
  "Order_Items (decrement i a d) = Order_Items d"
  "uncommitted (decrement i a d) = uncommitted d"
  by (simp_all add: decrement_def split: option.splits)

lemma decrement_Ingredients:
  "Ingredients (decrement i a d) j
     = (if j = i
        then map_option (\<lambda>r. r\<lparr>current_inventory := current_inventory r - a\<rparr>) (Ingredients d i)
        else Ingredients d j)"
  by (simp add: decrement_def split: option.splits)

lemma decrement_all_frame [simp]:
  "Meals (snd (decrement_all flt demand d)) = Meals d"
  "Recipe_Ingredients (snd (decrement_all flt demand d)) = Recipe_Ingredients d"
  "Order_Items (snd (decrement_all flt demand d)) = Order_Items d"
  "uncommitted (snd (decrement_all flt demand d)) = uncommitted d"
  by (induction flt demand d rule: decrement_all.induct) simp_all

lemma sufficient_iff:
  "sufficient d demand
     \<longleftrightarrow> (\<forall>(i, x) \<in> set demand. \<forall>r. Ingredients d i = Some r \<longrightarrow> x \<le> current_inventory r)"
  by (auto simp: sufficient_def list_all_iff split: option.splits)

lemma demand_of_Cons:
  "demand_of ((i, x) # rest) j = (if j = i then x else demand_of rest j)"
  by (simp add: demand_of_def)

lemma demand_of_absent:
  "j \<notin> fst ` set demand \<Longrightarrow> demand_of demand j = 0"
  by (simp add: demand_of_def map_of_eq_None_iff [THEN iffD2])

lemma decrement_all_ok:
  assumes "\<forall>(i, x) \<in> set demand. \<not> flt (Update_Inventory i)"
    and "distinct (map fst demand)"
  shows "fst (decrement_all flt demand d) = Ok
       \<and> (\<forall>j. Ingredients (snd (decrement_all flt demand d)) j
             = map_option (\<lambda>r. r\<lparr>current_inventory := current_inventory r - demand_of demand j\<rparr>)
                 (Ingredients d j))"
  using assms
proof (induction flt demand d rule: decrement_all.induct)
  case (1 flt d)
  show ?case by (simp add: demand_of_def option.map_ident)
next
  case (2 flt i x rest d)
  from "2.prems" have nf: "\<not> flt (Update_Inventory i)"
    and rest: "\<forall>(i, x) \<in> set rest. \<not> flt (Update_Inventory i)" "distinct (map fst rest)"
    and fresh: "i \<notin> fst ` set rest"
    by auto
  from "2.IH" [OF nf rest]
  have ih: "fst (decrement_all flt rest (decrement i x d)) = Ok"
    "\<And>j. Ingredients (snd (decrement_all flt rest (decrement i x d))) j
             = map_option (\<lambda>r. r\<lparr>current_inventory := current_inventory r - demand_of rest j\<rparr>)
                 (Ingredients (decrement i x d) j)"
    by simp_all
  have "Ingredients (snd (decrement_all flt rest (decrement i x d))) j
          = map_option (\<lambda>r. r\<lparr>current_inventory := current_inventory r - demand_of ((i, x) # rest) j\<rparr>)
              (Ingredients d j)" for j
  proof (cases "j = i")
    case True
    with fresh have "demand_of rest j = 0" by (simp add: demand_of_absent)
    with True show ?thesis
      by (simp add: ih(2) decrement_Ingredients demand_of_Cons option.map_comp comp_def
            option.map_ident)
  next
    case False
    then show ?thesis
      by (simp add: ih(2) decrement_Ingredients demand_of_Cons)
  qed
  with ih(1) nf show ?case by simp
qed

lemma decrement_all_nonneg:
  assumes "stock_nonneg d"
    and "distinct (map fst demand)"
    and "\<forall>(i, x) \<in> set demand. \<forall>r. Ingredients d i = Some r \<longrightarrow> x \<le> current_inventory r"
  shows "stock_nonneg (snd (decrement_all flt demand d))"
  using assms
proof (induction flt demand d rule: decrement_all.induct)
  case (1 flt d)
  then show ?case by simp
next
  case (2 flt i x rest d)
  show ?case
  proof (cases "flt (Update_Inventory i)")
    case True
    with "2.prems"(1) show ?thesis by simp
  next
    case False
    from "2.prems" have fresh: "i \<notin> fst ` set rest" and dist: "distinct (map fst rest)"
      by auto
    have nn: "stock_nonneg (decrement i x d)"
      using "2.prems"(1,3)
      by (auto simp: stock_nonneg_iff decrement_Ingredients split: if_splits)
    have suff: "\<forall>(j, y) \<in> set rest. \<forall>r. Ingredients (decrement i x d) j = Some r
                  \<longrightarrow> y \<le> current_inventory r"
    proof (clarify)
      fix j y r
      assume jy: "(j, y) \<in> set rest" and r: "Ingredients (decrement i x d) j = Some r"
      from jy fresh have "j \<noteq> i" by force
      with r have "Ingredients d j = Some r" by (simp add: decrement_Ingredients)
      with jy "2.prems"(3) show "y \<le> current_inventory r" by auto
    qed
    from "2.IH" [OF False nn dist suff] False show ?thesis by simp
  qed
qed

lemma depletion_engine_frame [simp]:
  "Meals (snd (depletion_engine flt xs d)) = Meals d"
  "Recipe_Ingredients (snd (depletion_engine flt xs d)) = Recipe_Ingredients d"
  "Order_Items (snd (depletion_engine flt xs d)) = Order_Items d"
  "uncommitted (snd (depletion_engine flt xs d)) = uncommitted d"
  by (simp_all add: depletion_engine_def Let_def)

lemma depletion_engine_no_faults:
  assumes "\<forall>a. \<not> flt a"
  shows "depletion_engine flt xs d
           = (if sufficient d (aggregate_demand d (resolved_lines (meal_name_to_id (Meals d)) xs))
              then decrement_all flt
                     (aggregate_demand d (resolved_lines (meal_name_to_id (Meals d)) xs)) d
              else (Insufficient_stock, d))"
  using assms by (simp add: depletion_engine_def Let_def list_ex_iff)

lemma depletion_engine_nonneg:
  assumes "stock_nonneg d"
  shows "stock_nonneg (snd (depletion_engine flt xs d))"
proof -
  have "stock_nonneg (snd (decrement_all flt demand d))"
    if "sufficient d demand" "demand = aggregate_demand d lines" for demand lines
    using that assms by (intro decrement_all_nonneg) (simp_all add: distinct_aggregate sufficient_iff)
  with assms show ?thesis
    by (simp add: depletion_engine_def Let_def)
qed

lemma aggregate_demand_Nil [simp]: "aggregate_demand d [] = []"
  by (simp add: aggregate_demand_def)

lemma deplete_eq:
  "deplete_inventory_from_order flt xs d
     = (Inr (status_of (fst (depletion_engine flt xs d))), snd (depletion_engine flt xs d))"
  by (simp add: deplete_inventory_from_order_def case_prod_beta)

lemma stock_nonneg_cong:
  "Ingredients d' = Ingredients d \<Longrightarrow> stock_nonneg d \<Longrightarrow> stock_nonneg d'"
  by (simp add: stock_nonneg_def)

lemma take_sufficient:
  assumes "distinct (map fst demand)"
    and "\<forall>(i, x) \<in> set demand. \<forall>r. Ingredients d i = Some r \<longrightarrow> x \<le> current_inventory r"
  shows "distinct (map fst (take k demand))
       \<and> (\<forall>(i, x) \<in> set (take k demand). \<forall>r. Ingredients d i = Some r \<longrightarrow> x \<le> current_inventory r)"
proof -
  have "distinct (take k (map fst demand))" using assms(1) by (rule distinct_take)
  then have "distinct (map fst (take k demand))" by (simp add: take_map)
  moreover have "set (take k demand) \<subseteq> set demand" by (rule set_take_subset)
  ultimately show ?thesis using assms(2) by blast
qed

lemma insert_orders_from_bot_Ingredients:
  "Ingredients (database (snd (insert_orders_from_bot deplete oid xs conn w)))
     = Ingredients (database w)
   \<or> Ingredients (database (snd (insert_orders_from_bot deplete oid xs conn w)))
     = Ingredients (snd (deplete xs (database w)))"
proof (cases conn)
  case None
  then show ?thesis by (simp add: insert_orders_from_bot_def print_def)
next
  case (Some c)
  show ?thesis
  proof (cases "faulty w Select_Meals")
    case True
    with Some show ?thesis by (simp add: insert_orders_from_bot_def execute_eq print_def)
  next
    case False
    define m where "m = meal_name_to_id (Meals (database w))"
    define w2 where
      "w2 = w\<lparr>trace := trace w @ [Select_Meals],
              stdout := stdout w @ map Msg_meal_not_found (unmatched_names m xs)\<rparr>"
    have db2: "database w2 = database w" by (simp add: w2_def)
    show ?thesis
    proof (cases "resolved_lines m xs = []")
      case True
      then show ?thesis
        by (simp add: Some insert_connected [OF False] m_def [symmetric] print_def)
    next
      case ne: False
      define orders where
        "orders = map (\<lambda>(meal_id, q). (oid, meal_id, q)) (resolved_lines m xs)"
      from ne have "insert_orders_from_bot deplete oid xs conn w
                      = record_orders deplete oid m xs (Some c) orders w2"
        by (simp add: Some insert_connected [OF False] m_def [symmetric] w2_def orders_def Let_def)
      with record_orders_Ingredients [of deplete oid m xs c orders w2]
      show ?thesis by (simp add: db2)
    qed
  qed
qed




lemma lower_latin1_example:
  "lower (''CAF'' @ [CHR 0xC9]) = ''caf'' @ [CHR 0xE9]"
  by code_simp





section \<open>The claims on \<open>insert_orders_from_bot\<close>\<close>

text \<open>
  C10: the gate of lines 93 to 96 is a truth test and an inequality test. Once the catalogue
  is read, some item is resolved and the recipe queries pass, a false depletion status
  (\<open>None\<close>, \<open>False\<close>, the empty string, 0) makes the function return \<open>notok-err\<close>
  with the database as the depletion call left it and no insertion and no commit; every true
  status other than the string \<open>not_enough\<close>, whatever it is, makes the function insert all
  resolved order lines, commit and return \<open>ok\<close> (if insertion and commit do not raise).
\<close>

theorem gate_is_truth_test:
  assumes m: "m = meal_name_to_id (Meals (database w))"
    and orders: "orders_to_insert
                   = map (\<lambda>(meal_id, q). (order_id, meal_id, q)) (resolved_lines m order_data)"
    and meals: "\<not> faulty w Select_Meals"
    and nonempty: "orders_to_insert \<noteq> []"
    and recipes: "\<forall>meal_id \<in> set (recipe_meals m order_data). \<not> faulty w (Select_Recipe meal_id)"
    and dep: "deplete order_data (database w) = (Inr deplete_status, d)"
  shows "case insert_orders_from_bot deplete order_id order_data (Some c) w of
           (result, w') \<Rightarrow>
             (\<not> truthy deplete_status \<longrightarrow>
                result = Inr (PyStr ''notok-err'') \<and> database w' = d
                \<and> filter (\<lambda>a. \<not> is_select a) (trace w')
                    = filter (\<lambda>a. \<not> is_select a) (trace w) @ [Call_deplete])
           \<and> (truthy deplete_status \<and> deplete_status \<noteq> PyStr ''not_enough''
                \<and> \<not> faulty w (Insert_Order_Items orders_to_insert) \<and> \<not> faulty w Commit \<longrightarrow>
                result = Inr (PyStr ''ok'')
                \<and> database w'
                    = d\<lparr>Order_Items := Order_Items d @ uncommitted d @ orders_to_insert,
                        uncommitted := []\<rparr>
                \<and> filter (\<lambda>a. \<not> is_select a) (trace w')
                    = filter (\<lambda>a. \<not> is_select a) (trace w)
                        @ [Call_deplete, Insert_Order_Items orders_to_insert, Commit])"
proof -
  define w2 where
    "w2 = w\<lparr>trace := trace w @ [Select_Meals],
            stdout := stdout w @ map Msg_meal_not_found (unmatched_names m order_data)\<rparr>"
  have run: "insert_orders_from_bot deplete order_id order_data (Some c) w
               = record_orders deplete order_id m order_data (Some c) orders_to_insert w2"
    using nonempty by (simp add: insert_connected [OF meals] m [symmetric] orders w2_def Let_def)
  have recipes2: "\<forall>meal_id \<in> set (recipe_meals m order_data). \<not> faulty w2 (Select_Recipe meal_id)"
    using recipes by (simp add: w2_def)
  have dep2: "deplete order_data (database w2) = (Inr deplete_status, d)"
    using dep by (simp add: w2_def)
  have sel: "filter (\<lambda>a. \<not> is_select a) (trace w2) = filter (\<lambda>a. \<not> is_select a) (trace w)"
    by (simp add: w2_def is_select_def)
  show ?thesis
  proof (cases "truthy deplete_status \<and> deplete_status \<noteq> PyStr ''not_enough''")
    case False
    then have "case Inr deplete_status :: error + pyval of Inl e \<Rightarrow> True
               | Inr st \<Rightarrow> \<not> truthy st \<or> st = PyStr ''not_enough''"
      by auto
    from record_orders_stopped [where deplete = deplete and xs = order_data and w = w2 and m = m
        and r = "Inr deplete_status" and d = d and oid = order_id and c = c
        and orders = orders_to_insert, OF recipes2 dep2 this]
    obtain w' ids where
      "record_orders deplete order_id m order_data (Some c) orders_to_insert w2
         = (if \<not> truthy deplete_status then Inr (PyStr ''notok-err'')
            else Inr (PyStr ''not_enough''), w')"
      "database w' = d"
      "trace w' = trace w2 @ map Select_Recipe (recipe_meals m order_data)
                    @ map Select_Inventory ids @ [Call_deplete]"
      by auto
    with False sel show ?thesis by (auto simp: run is_select_def)
  next
    case True
    show ?thesis
    proof (cases "\<not> faulty w (Insert_Order_Items orders_to_insert) \<and> \<not> faulty w Commit")
      case False
      with True show ?thesis by (auto simp: case_prod_beta)
    next
      case nw: True
      then have nw2: "\<not> faulty w2 (Insert_Order_Items orders_to_insert)" "\<not> faulty w2 Commit"
        by (simp_all add: w2_def)
      from True have go: "truthy deplete_status" "deplete_status \<noteq> PyStr ''not_enough''"
        by simp_all
      from record_orders_saved [where deplete = deplete and xs = order_data and w = w2 and m = m
          and st = deplete_status and d = d and oid = order_id and c = c
          and orders = orders_to_insert, OF recipes2 dep2 go nw2]
      obtain w' ids ids' where
        "record_orders deplete order_id m order_data (Some c) orders_to_insert w2
           = (Inr (PyStr ''ok''), w')"
        "database w' = d\<lparr>Order_Items := Order_Items d @ uncommitted d @ orders_to_insert,
                          uncommitted := []\<rparr>"
        "trace w' = trace w2 @ map Select_Recipe (recipe_meals m order_data)
                      @ map Select_Inventory ids @ [Call_deplete] @ map Select_Inventory ids'
                      @ [Insert_Order_Items orders_to_insert, Commit]"
        by auto
      with True sel show ?thesis by (auto simp: run is_select_def)
    qed
  qed
qed

theorem gate_is_truth_test_witness:
  "fst (insert_orders_from_bot truthy_deplete ''O1'' [order_of ''Pizza'' 3]
         (Some MySQLConnection) pizza_world) = Inr (PyStr ''ok'')
   \<and> Order_Items (database (snd (insert_orders_from_bot truthy_deplete ''O1''
         [order_of ''Pizza'' 3] (Some MySQLConnection) pizza_world))) = [(''O1'', 1, 3)]
   \<and> fst (insert_orders_from_bot falsy_deplete ''O1'' [order_of ''Pizza'' 3]
         (Some MySQLConnection) pizza_world) = Inr (PyStr ''notok-err'')
   \<and> database (snd (insert_orders_from_bot falsy_deplete ''O1'' [order_of ''Pizza'' 3]
         (Some MySQLConnection) pizza_world)) = pizza_db"
proof -
  have m: "meal_name_to_id (Meals (database pizza_world)) (lower ''Pizza'') = Some 1"
    by (simp add: pizza_world_def pizza_db_def meal_name_to_id_def)
  have rl: "resolved_lines (meal_name_to_id (Meals (database pizza_world))) [order_of ''Pizza'' 3]
              = [(1, 3)]"
    by (simp add: resolved_lines_def List.map_filter_def order_of_def m)
  have rm: "recipe_meals (meal_name_to_id (Meals (database pizza_world))) [order_of ''Pizza'' 3] = [1]"
    by (simp add: recipe_meals_def rl)
  have h: "\<not> faulty pizza_world Select_Meals"
     "\<forall>meal_id \<in> set (recipe_meals (meal_name_to_id (Meals (database pizza_world)))
          [order_of ''Pizza'' 3]). \<not> faulty pizza_world (Select_Recipe meal_id)"
     "\<not> faulty pizza_world (Insert_Order_Items [(''O1'', 1, 3)])"
     "\<not> faulty pizza_world Commit"
    by (simp_all add: rm) (simp_all add: pizza_world_def)
  have o: "[(''O1'', 1, 3)] = map (\<lambda>(meal_id, q). (''O1'', meal_id, q))
       (resolved_lines (meal_name_to_id (Meals (database pizza_world))) [order_of ''Pizza'' 3])"
    by (simp add: rl)
  have ne: "[(''O1'', 1 :: int, 3 :: int)] \<noteq> []" by simp
  have d1: "truthy_deplete [order_of ''Pizza'' 3] (database pizza_world) = (Inr (PyInt 7), pizza_db)"
    by (simp add: truthy_deplete_def pizza_world_def)
  have d2: "falsy_deplete [order_of ''Pizza'' 3] (database pizza_world) = (Inr (PyStr []), pizza_db)"
    by (simp add: falsy_deplete_def pizza_world_def)
  show ?thesis
    using gate_is_truth_test [where deplete = truthy_deplete and w = pizza_world
          and order_data = "[order_of ''Pizza'' 3]" and c = MySQLConnection,
          OF refl o h(1) ne h(2) d1]
      gate_is_truth_test [where deplete = falsy_deplete and w = pizza_world
          and order_data = "[order_of ''Pizza'' 3]" and c = MySQLConnection,
          OF refl o h(1) ne h(2) d2] h(3,4)
    by (simp add: case_prod_beta pizza_db_def)
qed

text \<open>
  C7: when the depletion call succeeds (a true status other than \<open>not_enough\<close>) and
  insertion and commit do not raise, the accesses of the call are selects, then the depletion
  call, then selects, then the insertion of the order lines and the commit: the commit
  happens once, last, after the depletion. When the depletion status is \<open>not_enough\<close> or
  false, the trace ends with the depletion call, the database is the one the depletion left
  (nothing inserted, nothing committed), and the caller gets \<open>not_enough\<close> for the former and
  \<open>notok-err\<close>, the hard error, for the latter.
\<close>

theorem commit_once_after_depletion:
  assumes m: "m = meal_name_to_id (Meals (database w))"
    and orders: "orders_to_insert
                   = map (\<lambda>(meal_id, q). (order_id, meal_id, q)) (resolved_lines m order_data)"
    and meals: "\<not> faulty w Select_Meals"
    and nonempty: "orders_to_insert \<noteq> []"
    and recipes: "\<forall>meal_id \<in> set (recipe_meals m order_data). \<not> faulty w (Select_Recipe meal_id)"
    and dep: "deplete order_data (database w) = (Inr deplete_status, d)"
  shows "case insert_orders_from_bot deplete order_id order_data (Some c) w of
           (result, w') \<Rightarrow>
             (truthy deplete_status \<and> deplete_status \<noteq> PyStr ''not_enough''
                \<and> \<not> faulty w (Insert_Order_Items orders_to_insert) \<and> \<not> faulty w Commit \<longrightarrow>
                (\<exists>before after.
                    trace w' = trace w @ before @ [Call_deplete] @ after
                                 @ [Insert_Order_Items orders_to_insert, Commit]
                    \<and> list_all is_select before \<and> list_all is_select after)
                \<and> Order_Items (database w') = Order_Items d @ uncommitted d @ orders_to_insert
                \<and> uncommitted (database w') = [])
           \<and> (\<not> truthy deplete_status \<or> deplete_status = PyStr ''not_enough'' \<longrightarrow>
                result = Inr (if deplete_status = PyStr ''not_enough'' then PyStr ''not_enough''
                              else PyStr ''notok-err'')
                \<and> database w' = d
                \<and> (\<exists>before. trace w' = trace w @ before @ [Call_deplete]
                      \<and> list_all is_select before))"
proof -
  define w2 where
    "w2 = w\<lparr>trace := trace w @ [Select_Meals],
            stdout := stdout w @ map Msg_meal_not_found (unmatched_names m order_data)\<rparr>"
  have run: "insert_orders_from_bot deplete order_id order_data (Some c) w
               = record_orders deplete order_id m order_data (Some c) orders_to_insert w2"
    using nonempty by (simp add: insert_connected [OF meals] m [symmetric] orders w2_def Let_def)
  have recipes2: "\<forall>meal_id \<in> set (recipe_meals m order_data). \<not> faulty w2 (Select_Recipe meal_id)"
    using recipes by (simp add: w2_def)
  have dep2: "deplete order_data (database w2) = (Inr deplete_status, d)"
    using dep by (simp add: w2_def)
  have tr2: "trace w2 = trace w @ [Select_Meals]"
    by (simp add: w2_def)
  consider (falsy) "\<not> truthy deplete_status"
    | (short) "deplete_status = PyStr ''not_enough''"
    | (go) "truthy deplete_status" "deplete_status \<noteq> PyStr ''not_enough''"
    by blast
  then show ?thesis
  proof cases
    case falsy
    then have ne: "deplete_status \<noteq> PyStr ''not_enough''" by auto
    from falsy have stop: "case Inr deplete_status :: error + pyval of Inl e \<Rightarrow> True
               | Inr st \<Rightarrow> \<not> truthy st \<or> st = PyStr ''not_enough''"
      by simp
    from record_orders_stopped [where deplete = deplete and xs = order_data and w = w2 and m = m
        and r = "Inr deplete_status" and d = d and oid = order_id and c = c
        and orders = orders_to_insert, OF recipes2 dep2 stop]
    obtain w' ids where r:
      "record_orders deplete order_id m order_data (Some c) orders_to_insert w2
         = (if \<not> truthy deplete_status then Inr (PyStr ''notok-err'')
            else Inr (PyStr ''not_enough''), w')"
      "database w' = d"
      "trace w' = trace w2 @ map Select_Recipe (recipe_meals m order_data)
                    @ map Select_Inventory ids @ [Call_deplete]"
      by auto
    define before where
      "before = Select_Meals # map Select_Recipe (recipe_meals m order_data) @ map Select_Inventory ids"
    have "trace w' = trace w @ before @ [Call_deplete]" "list_all is_select before"
      by (simp_all add: r(3) tr2 before_def is_select_def)
    then have "\<exists>before. trace w' = trace w @ before @ [Call_deplete] \<and> list_all is_select before"
      by blast
    with falsy ne r(2) show ?thesis unfolding run r(1) by simp
  next
    case short
    then have stop: "case Inr deplete_status :: error + pyval of Inl e \<Rightarrow> True
               | Inr st \<Rightarrow> \<not> truthy st \<or> st = PyStr ''not_enough''"
      by simp
    from record_orders_stopped [where deplete = deplete and xs = order_data and w = w2 and m = m
        and r = "Inr deplete_status" and d = d and oid = order_id and c = c
        and orders = orders_to_insert, OF recipes2 dep2 stop]
    obtain w' ids where r:
      "record_orders deplete order_id m order_data (Some c) orders_to_insert w2
         = (if \<not> truthy deplete_status then Inr (PyStr ''notok-err'')
            else Inr (PyStr ''not_enough''), w')"
      "database w' = d"
      "trace w' = trace w2 @ map Select_Recipe (recipe_meals m order_data)
                    @ map Select_Inventory ids @ [Call_deplete]"
      by auto
    define before where
      "before = Select_Meals # map Select_Recipe (recipe_meals m order_data) @ map Select_Inventory ids"
    have "trace w' = trace w @ before @ [Call_deplete]" "list_all is_select before"
      by (simp_all add: r(3) tr2 before_def is_select_def)
    then have "\<exists>before. trace w' = trace w @ before @ [Call_deplete] \<and> list_all is_select before"
      by blast
    with r(2) show ?thesis unfolding run r(1) short by simp
  next
    case go
    show ?thesis
    proof (cases "\<not> faulty w (Insert_Order_Items orders_to_insert) \<and> \<not> faulty w Commit")
      case False
      with go show ?thesis by (auto simp: case_prod_beta)
    next
      case nw: True
      then have nw2: "\<not> faulty w2 (Insert_Order_Items orders_to_insert)" "\<not> faulty w2 Commit"
        by (simp_all add: w2_def)
      from record_orders_saved [where deplete = deplete and xs = order_data and w = w2 and m = m
          and st = deplete_status and d = d and oid = order_id and c = c
          and orders = orders_to_insert, OF recipes2 dep2 go nw2]
      obtain w' ids ids' where r:
        "record_orders deplete order_id m order_data (Some c) orders_to_insert w2
           = (Inr (PyStr ''ok''), w')"
        "database w' = d\<lparr>Order_Items := Order_Items d @ uncommitted d @ orders_to_insert,
                          uncommitted := []\<rparr>"
        "trace w' = trace w2 @ map Select_Recipe (recipe_meals m order_data)
                      @ map Select_Inventory ids @ [Call_deplete] @ map Select_Inventory ids'
                      @ [Insert_Order_Items orders_to_insert, Commit]"
        by auto
      define before where
        "before = Select_Meals # map Select_Recipe (recipe_meals m order_data) @ map Select_Inventory ids"
      have "trace w' = trace w @ before @ [Call_deplete] @ map Select_Inventory ids'
                         @ [Insert_Order_Items orders_to_insert, Commit]"
        "list_all is_select before" "list_all is_select (map Select_Inventory ids')"
        by (simp_all add: r(3) tr2 before_def is_select_def)
      then have "\<exists>before after.
                    trace w' = trace w @ before @ [Call_deplete] @ after
                                 @ [Insert_Order_Items orders_to_insert, Commit]
                    \<and> list_all is_select before \<and> list_all is_select after"
        by blast
      with go r(2) show ?thesis unfolding run r(1) by simp
    qed
  qed
qed

theorem commit_once_after_depletion_witness:
  "Order_Items (database (snd (insert_orders_from_bot truthy_deplete ''O1''
         [order_of ''Pizza'' 3] (Some MySQLConnection) pizza_world))) = [(''O1'', 1, 3)]
   \<and> insert_orders_from_bot not_enough_deplete ''O1'' [order_of ''Pizza'' 3]
         (Some MySQLConnection) pizza_world
       = (Inr (PyStr ''not_enough''),
          snd (insert_orders_from_bot not_enough_deplete ''O1'' [order_of ''Pizza'' 3]
                 (Some MySQLConnection) pizza_world))
   \<and> database (snd (insert_orders_from_bot not_enough_deplete ''O1'' [order_of ''Pizza'' 3]
         (Some MySQLConnection) pizza_world)) = pizza_db"
proof -
  have o: "[(''O1'', 1, 3)] = map (\<lambda>(meal_id, q). (''O1'', meal_id, q))
       (resolved_lines (meal_name_to_id (Meals (database pizza_world))) [order_of ''Pizza'' 3])"
    by (simp add: pizza_resolved)
  have ne: "[(''O1'', 1 :: int, 3 :: int)] \<noteq> []" by simp
  have rc: "\<forall>meal_id \<in> set (recipe_meals (meal_name_to_id (Meals (database pizza_world)))
          [order_of ''Pizza'' 3]). \<not> faulty pizza_world (Select_Recipe meal_id)"
    by (simp add: pizza_no_fault)
  have d1: "truthy_deplete [order_of ''Pizza'' 3] (database pizza_world) = (Inr (PyInt 7), pizza_db)"
    by (simp add: truthy_deplete_def pizza_world_def)
  have d2: "not_enough_deplete [order_of ''Pizza'' 3] (database pizza_world)
              = (Inr (PyStr ''not_enough''), pizza_db)"
    by (simp add: not_enough_deplete_def pizza_world_def)
  show ?thesis
    using commit_once_after_depletion [where deplete = truthy_deplete and w = pizza_world
          and order_data = "[order_of ''Pizza'' 3]" and c = MySQLConnection,
          OF refl o pizza_no_fault ne rc d1]
      commit_once_after_depletion [where deplete = not_enough_deplete and w = pizza_world
          and order_data = "[order_of ''Pizza'' 3]" and c = MySQLConnection,
          OF refl o pizza_no_fault ne rc d2]
    by (simp add: case_prod_beta pizza_no_fault pizza_db_def prod_eq_iff)
qed

text \<open>
  C5, as the claim states it, fails: without a connection the function returns \<open>None\<close>, which
  is none of the three outcomes.
\<close>

theorem no_connection_counterexample:
  "fst (insert_orders_from_bot truthy_deplete ''O1'' [order_of ''Pizza'' 3] None pizza_world)
     \<notin> {Inr (PyStr ''ok''), Inr (PyStr ''not_enough''), Inr (PyStr ''notok-err'')}"
  by (simp add: insert_orders_from_bot_def)

text \<open>
  C5, amended: for every input the function returns \<open>None\<close>, \<open>ok\<close>, \<open>not_enough\<close> or
  \<open>notok-err\<close>, or lets a \<open>mysql.connector.Error\<close> of a later access or of the depletion
  call escape; it returns \<open>None\<close> exactly when the connection is \<open>None\<close> or the query on
  \<open>Meals\<close> raises.
\<close>

theorem returned_values:
  "fst (insert_orders_from_bot deplete order_id order_data conn w)
     \<in> {Inr PyNone, Inr (PyStr ''ok''), Inr (PyStr ''not_enough''), Inr (PyStr ''notok-err''),
        Inl MySQLError}
   \<and> (fst (insert_orders_from_bot deplete order_id order_data conn w) = Inr PyNone
        \<longleftrightarrow> conn = None \<or> faulty w Select_Meals)"
proof (cases conn)
  case None
  then show ?thesis by (simp add: insert_orders_from_bot_def)
next
  case (Some c)
  show ?thesis
  proof (cases "faulty w Select_Meals")
    case True
    with Some show ?thesis by (simp add: insert_orders_from_bot_def execute_eq)
  next
    case False
    define m where "m = meal_name_to_id (Meals (database w))"
    define w2 where
      "w2 = w\<lparr>trace := trace w @ [Select_Meals],
              stdout := stdout w @ map Msg_meal_not_found (unmatched_names m order_data)\<rparr>"
    define orders where
      "orders = map (\<lambda>(meal_id, q). (order_id, meal_id, q)) (resolved_lines m order_data)"
    define R where "R = fst (record_orders deplete order_id m order_data (Some c) orders w2)"
    have "R \<in> {Inl MySQLError, Inr (PyStr ''ok''), Inr (PyStr ''not_enough''),
               Inr (PyStr ''notok-err'')}"
      unfolding R_def by (rule record_orders_result)
    moreover have "fst (insert_orders_from_bot deplete order_id order_data conn w)
                     = (if resolved_lines m order_data \<noteq> [] then R else Inr (PyStr ''ok''))"
      unfolding Some insert_connected [OF False] Let_def m_def [symmetric] w2_def [symmetric]
        orders_def [symmetric] R_def
      by simp
    ultimately show ?thesis using False Some by auto
  qed
qed

theorem returned_values_witness:
  "fst (insert_orders_from_bot truthy_deplete ''O1'' [order_of ''Pizza'' 3] None pizza_world)
     = Inr PyNone"
  using returned_values [of truthy_deplete "''O1''" "[order_of ''Pizza'' 3]" None pizza_world]
  by simp

text \<open>
  C6, as the claim states it, fails: for the empty batch the function returns \<open>ok\<close>, the value
  it returns for a saved order, and no neutral value of its own.
\<close>

theorem empty_batch_counterexample:
  "fst (insert_orders_from_bot truthy_deplete ''O1'' [] (Some MySQLConnection) pizza_world)
     = Inr (PyStr ''ok'')"
  by (simp add: insert_orders_from_bot_def execute_eq pizza_world_def print_def)

text \<open>
  C6, amended: when no item of the batch resolves (the batch is empty or no name is in the
  catalogue), the only access is the query on \<open>Meals\<close>: the depletion function is not
  called, no inventory is read, nothing is inserted or committed and the database is
  unchanged. The function prints one warning per item and the line that there is nothing to
  save, and returns \<open>ok\<close>.
\<close>

theorem nothing_to_save:
  assumes m: "m = meal_name_to_id (Meals (database w))"
    and meals: "\<not> faulty w Select_Meals"
    and none: "resolved_lines m order_data = []"
  shows "insert_orders_from_bot deplete order_id order_data (Some c) w
           = (Inr (PyStr ''ok''),
              w\<lparr>trace := trace w @ [Select_Meals],
                stdout := stdout w @ map Msg_meal_not_found (map item_name order_data)
                            @ [Msg_no_valid_items]\<rparr>)"
  using none
  by (simp add: insert_connected [OF meals] m [symmetric] unmatched_all print_def)

theorem nothing_to_save_witness:
  "insert_orders_from_bot truthy_deplete ''O1'' [order_of ''Sushi'' 2] (Some MySQLConnection)
       pizza_world
     = (Inr (PyStr ''ok''),
        pizza_world\<lparr>trace := [Select_Meals],
                     stdout := [Msg_meal_not_found ''Sushi'', Msg_no_valid_items]\<rparr>)"
proof -
  have "resolved_lines (meal_name_to_id (Meals (database pizza_world))) [order_of ''Sushi'' 2] = []"
    by (simp add: resolved_lines_def List.map_filter_def order_of_def pizza_world_def pizza_db_def
        meal_name_to_id_def lower_def lower_char_def is_capital_def char_of_def)
  from nothing_to_save [OF refl pizza_no_fault this, of truthy_deplete "''O1''" MySQLConnection]
  show ?thesis by (simp add: order_of_def) (simp add: pizza_world_def)
qed




text \<open>
  C9, as the claim states it, fails: for a batch with the same meal on two lines the loop of
  lines 65 to 76 runs the recipe query of that meal twice.
\<close>

theorem one_recipe_query_per_meal_counterexample:
  "filter is_recipe_query
     (trace (snd (insert_orders_from_bot truthy_deplete ''O1''
                    [order_of ''Pizza'' 1, order_of ''Pizza'' 2] (Some MySQLConnection)
                    pizza_world)))
     = [Select_Recipe 1, Select_Recipe 1]"
  by code_simp

text \<open>
  C9, amended: when the catalogue is read and the recipe queries do not raise, the call runs
  the recipe query once per order line whose name resolves to a meal identifier other than 0,
  in the order of the lines, whether or not a meal occurs on several lines.
\<close>

theorem recipe_query_per_order_line:
  assumes m: "m = meal_name_to_id (Meals (database w))"
    and meals: "\<not> faulty w Select_Meals"
    and recipes: "\<forall>meal_id \<in> set (recipe_meals m order_data). \<not> faulty w (Select_Recipe meal_id)"
  shows "filter is_recipe_query
           (trace (snd (insert_orders_from_bot deplete order_id order_data (Some c) w)))
         = filter is_recipe_query (trace w) @ map Select_Recipe (recipe_meals m order_data)"
proof -
  define w2 where
    "w2 = w\<lparr>trace := trace w @ [Select_Meals],
            stdout := stdout w @ map Msg_meal_not_found (unmatched_names m order_data)\<rparr>"
  have recipes2: "\<forall>meal_id \<in> set (recipe_meals m order_data). \<not> faulty w2 (Select_Recipe meal_id)"
    using recipes by (simp add: w2_def)
  have tr2: "filter is_recipe_query (trace w2) = filter is_recipe_query (trace w)"
    by (simp add: w2_def is_recipe_query_def)
  show ?thesis
  proof (cases "resolved_lines m order_data = []")
    case True
    then have "recipe_meals m order_data = []" by (simp add: recipe_meals_def)
    with True show ?thesis
      by (simp add: insert_connected [OF meals] m [symmetric] print_def is_recipe_query_def)
  next
    case False
    then have "insert_orders_from_bot deplete order_id order_data (Some c) w
                 = record_orders deplete order_id m order_data (Some c)
                     (map (\<lambda>(meal_id, q). (order_id, meal_id, q)) (resolved_lines m order_data)) w2"
      by (simp add: insert_connected [OF meals] m [symmetric] w2_def Let_def)
    then show ?thesis
      by (simp add: record_orders_recipe_queries [OF recipes2] tr2)
  qed
qed

theorem recipe_query_per_order_line_witness:
  "filter is_recipe_query
     (trace (snd (insert_orders_from_bot truthy_deplete ''O1'' [order_of ''Pizza'' 3]
                    (Some MySQLConnection) pizza_world)))
     = [Select_Recipe 1]"
proof -
  have rc: "\<forall>meal_id \<in> set (recipe_meals (meal_name_to_id (Meals (database pizza_world)))
          [order_of ''Pizza'' 3]). \<not> faulty pizza_world (Select_Recipe meal_id)"
    by (simp add: pizza_no_fault)
  from recipe_query_per_order_line [OF refl pizza_no_fault rc, of truthy_deplete "''O1''"
      MySQLConnection]
  show ?thesis by (simp add: pizza_recipe_meals) (simp add: pizza_world_def)
qed

section \<open>The claims on the workflow with the depletion engine\<close>

text \<open>
  C1: with a connection on which no access raises, a batch for which the aggregated demand
  of some ingredient exceeds its stock makes the workflow return \<open>not_enough\<close>, the
  insufficient-stock outcome, and leaves the database as it was: no order line is inserted
  or committed and no stock is changed. The only access that is not a select is the call of
  the depletion function.
\<close>

theorem insufficient_stock_rejects_batch:
  assumes m: "m = meal_name_to_id (Meals (database w))"
    and nofault: "\<forall>a. \<not> faulty w a"
    and lines: "lines = resolved_lines m order_data"
    and short: "ing_id \<in> involved (database w) lines"
      "Ingredients (database w) ing_id = Some r"
      "current_inventory r < total_demand (database w) lines ing_id"
  shows "case insert_orders_from_bot (deplete_inventory_from_order (faulty w)) order_id order_data
                (Some c) w of
           (result, w') \<Rightarrow>
             result = Inr (PyStr ''not_enough'')
             \<and> database w' = database w
             \<and> filter (\<lambda>a. \<not> is_select a) (trace w')
                 = filter (\<lambda>a. \<not> is_select a) (trace w) @ [Call_deplete]"
proof -
  define d where "d = database w"
  define demand where "demand = aggregate_demand d (resolved_lines m order_data)"
  define orders where
    "orders = map (\<lambda>(meal_id, q). (order_id, meal_id, q)) (resolved_lines m order_data)"
  define w2 where
    "w2 = w\<lparr>trace := trace w @ [Select_Meals],
            stdout := stdout w @ map Msg_meal_not_found (unmatched_names m order_data)\<rparr>"
  from short(1) have ne: "resolved_lines m order_data \<noteq> []"
    by (auto simp: lines involved_def)
  have run: "insert_orders_from_bot (deplete_inventory_from_order (faulty w)) order_id order_data
               (Some c) w
             = record_orders (deplete_inventory_from_order (faulty w)) order_id m order_data
                 (Some c) orders w2"
    using ne nofault by (simp add: insert_connected m [symmetric] orders_def w2_def Let_def)
  have "\<not> sufficient d demand"
  proof
    assume "sufficient d demand"
    then have "\<forall>(i, x) \<in> set demand. \<forall>r. Ingredients d i = Some r \<longrightarrow> x \<le> current_inventory r"
      by (simp add: sufficient_iff)
    moreover have "(ing_id, total_demand d lines ing_id) \<in> set demand"
      using short(1) by (simp add: demand_def d_def lines [symmetric] aggregate_entry)
    ultimately have "case (ing_id, total_demand d lines ing_id) of
                       (i, x) \<Rightarrow> \<forall>r. Ingredients d i = Some r \<longrightarrow> x \<le> current_inventory r"
      by (rule bspec)
    with short(2,3) show False by (simp add: d_def)
  qed
  then have eng: "depletion_engine (faulty w) order_data d = (Insufficient_stock, d)"
    using nofault by (simp add: depletion_engine_no_faults demand_def m d_def)
  have dep2: "deplete_inventory_from_order (faulty w) order_data (database w2)
                = (Inr (PyStr ''not_enough''), d)"
    using eng by (simp add: deplete_eq w2_def d_def)
  have recipes2: "\<forall>meal_id \<in> set (recipe_meals m order_data). \<not> faulty w2 (Select_Recipe meal_id)"
    using nofault by (simp add: w2_def)
  have stop: "case Inr (PyStr ''not_enough'') :: error + pyval of Inl e \<Rightarrow> True
               | Inr st \<Rightarrow> \<not> truthy st \<or> st = PyStr ''not_enough''"
    by simp
  from record_orders_stopped [where deplete = "deplete_inventory_from_order (faulty w)"
        and xs = order_data and w = w2 and m = m and r = "Inr (PyStr ''not_enough'')" and d = d
        and oid = order_id and c = c and orders = orders, OF recipes2 dep2 stop]
  obtain w' ids where r:
    "record_orders (deplete_inventory_from_order (faulty w)) order_id m order_data (Some c)
       orders w2 = (Inr (PyStr ''not_enough''), w')"
    "database w' = d"
    "trace w' = trace w2 @ map Select_Recipe (recipe_meals m order_data)
                  @ map Select_Inventory ids @ [Call_deplete]"
    by auto
  have "filter (\<lambda>a. \<not> is_select a) (trace w')
          = filter (\<lambda>a. \<not> is_select a) (trace w) @ [Call_deplete]"
    by (simp add: r(3) w2_def is_select_def)
  with r(2) show ?thesis unfolding run r(1) by (simp add: d_def)
qed

theorem insufficient_stock_rejects_batch_witness:
  "fst (insert_orders_from_bot (deplete_inventory_from_order (faulty pizza_world)) ''O1''
          [order_of ''Pizza'' 6] (Some MySQLConnection) pizza_world)
     = Inr (PyStr ''not_enough'')
   \<and> database (snd (insert_orders_from_bot (deplete_inventory_from_order (faulty pizza_world))
          ''O1'' [order_of ''Pizza'' 6] (Some MySQLConnection) pizza_world))
     = pizza_db"
proof -
  have rl: "resolved_lines (meal_name_to_id (Meals (database pizza_world))) [order_of ''Pizza'' 6]
              = [(1, 6)]"
    by (simp add: resolved_lines_def List.map_filter_def order_of_def pizza_world_def pizza_db_def
        meal_name_to_id_def)
  have a: "7 \<in> involved (database pizza_world) [(1, 6)]"
    by (simp add: involved_def recipe_lines_def pizza_world_def pizza_db_def)
  have b: "Ingredients (database pizza_world) 7 = Some cheese"
    by (simp add: pizza_world_def pizza_db_def)
  have c: "current_inventory cheese < total_demand (database pizza_world) [(1, 6)] 7"
    by (simp add: cheese_def total_demand_def recipe_lines_def pizza_world_def pizza_db_def)
  have nf: "\<forall>a. \<not> faulty pizza_world a" by (simp add: pizza_no_fault)
  from insufficient_stock_rejects_batch [OF refl nf rl [symmetric] a b c, of "''O1''"
      MySQLConnection]
  show ?thesis by (simp add: case_prod_beta) (simp add: pizza_world_def)
qed

text \<open>
  C2: with a connection on which no access raises and no insertion pending, a batch whose
  aggregated demand is at most the stock for every ingredient makes the workflow return
  \<open>ok\<close>; \<open>Order_Items\<close> gains one line per resolved item and nothing else, and the stock of
  every ingredient becomes its old stock minus its aggregated demand, exactly (an ingredient
  outside the demand has demand 0 and keeps its stock).
\<close>

theorem sufficient_stock_saves_batch:
  assumes m: "m = meal_name_to_id (Meals (database w))"
    and nofault: "\<forall>a. \<not> faulty w a"
    and clean: "uncommitted (database w) = []"
    and lines: "lines = resolved_lines m order_data"
    and enough: "\<forall>ing_id \<in> involved (database w) lines.
                   \<forall>r. Ingredients (database w) ing_id = Some r
                        \<longrightarrow> total_demand (database w) lines ing_id \<le> current_inventory r"
  shows "case insert_orders_from_bot (deplete_inventory_from_order (faulty w)) order_id order_data
                (Some c) w of
           (result, w') \<Rightarrow>
             result = Inr (PyStr ''ok'')
             \<and> Order_Items (database w')
                 = Order_Items (database w)
                     @ map (\<lambda>(meal_id, q). (order_id, meal_id, q)) (resolved_lines m order_data)
             \<and> length (Order_Items (database w'))
                 = length (Order_Items (database w)) + length (resolved_lines m order_data)
             \<and> (\<forall>ing_id. Ingredients (database w') ing_id
                   = map_option
                       (\<lambda>r. r\<lparr>current_inventory
                                := current_inventory r
                                     - total_demand (database w) lines ing_id\<rparr>)
                       (Ingredients (database w) ing_id))"
proof -
  define d where "d = database w"
  define demand where "demand = aggregate_demand d lines"
  have tot: "demand_of demand j = total_demand (database w) lines j" for j
    by (simp add: demand_def d_def demand_of_aggregate)
  define orders where
    "orders = map (\<lambda>(meal_id, q). (order_id, meal_id, q)) (resolved_lines m order_data)"
  define w2 where
    "w2 = w\<lparr>trace := trace w @ [Select_Meals],
            stdout := stdout w @ map Msg_meal_not_found (unmatched_names m order_data)\<rparr>"
  have meals: "\<not> faulty w Select_Meals" using nofault by simp
  show ?thesis
  proof (cases "resolved_lines m order_data = []")
    case True
    then have "demand = []" by (simp add: demand_def lines)
    then have "demand_of demand j = 0" for j by (simp add: demand_of_def)
    then have z: "total_demand (database w) lines j = 0" for j by (simp add: tot [symmetric])
    from True show ?thesis
      by (simp add: insert_connected [OF meals] m [symmetric] print_def z option.map_ident)
  next
    case False
    then have run: "insert_orders_from_bot (deplete_inventory_from_order (faulty w)) order_id
                      order_data (Some c) w
               = record_orders (deplete_inventory_from_order (faulty w)) order_id m order_data
                   (Some c) orders w2"
      by (simp add: insert_connected [OF meals] m [symmetric] orders_def w2_def Let_def)
    have suff: "sufficient d demand"
      using enough by (simp add: sufficient_iff demand_def Ball_def aggregate_entry d_def)
    define E where "E = decrement_all (faulty w) demand d"
    have eng: "depletion_engine (faulty w) order_data d = E"
      using nofault suff
      by (simp add: depletion_engine_no_faults demand_def lines m d_def E_def)
    have nu: "\<forall>(i, x) \<in> set demand. \<not> faulty w (Update_Inventory i)"
      using nofault by simp
    have dist: "distinct (map fst demand)"
      by (simp add: demand_def distinct_aggregate)
    from decrement_all_ok [OF nu dist, of d]
    have E: "fst E = Ok"
      "\<And>j. Ingredients (snd E) j
              = map_option (\<lambda>r. r\<lparr>current_inventory := current_inventory r - demand_of demand j\<rparr>)
                  (Ingredients d j)"
      by (simp_all add: E_def)
    have fr: "Order_Items (snd E) = Order_Items d" "uncommitted (snd E) = []"
      using clean by (simp_all add: E_def d_def)
    have dep2: "deplete_inventory_from_order (faulty w) order_data (database w2)
                  = (Inr (PyBool True), snd E)"
      by (simp add: deplete_eq w2_def d_def [symmetric] eng E(1))
    have recipes2: "\<forall>meal_id \<in> set (recipe_meals m order_data). \<not> faulty w2 (Select_Recipe meal_id)"
      using nofault by (simp add: w2_def)
    have go: "truthy (PyBool True)" "PyBool True \<noteq> PyStr ''not_enough''"
      by simp_all
    have nw2: "\<not> faulty w2 (Insert_Order_Items orders)" "\<not> faulty w2 Commit"
      using nofault by (simp_all add: w2_def)
    from record_orders_saved [where deplete = "deplete_inventory_from_order (faulty w)"
          and xs = order_data and w = w2 and m = m and st = "PyBool True" and d = "snd E"
          and oid = order_id and c = c and orders = orders, OF recipes2 dep2 go nw2]
    obtain w' where r:
      "record_orders (deplete_inventory_from_order (faulty w)) order_id m order_data (Some c)
         orders w2 = (Inr (PyStr ''ok''), w')"
      "database w' = (snd E)\<lparr>Order_Items := Order_Items (snd E) @ uncommitted (snd E) @ orders,
                             uncommitted := []\<rparr>"
      by auto
    have "Order_Items (database w') = Order_Items d @ orders"
      by (simp add: r(2) fr)
    moreover have "length orders = length (resolved_lines m order_data)"
      by (simp add: orders_def)
    moreover have "\<forall>j. Ingredients (database w') j
              = map_option (\<lambda>r. r\<lparr>current_inventory
                                     := current_inventory r - total_demand d lines j\<rparr>)
                  (Ingredients d j)"
      by (simp add: r(2) E(2) tot d_def)
    ultimately show ?thesis
      unfolding run r(1) prod.case orders_def [symmetric] d_def [symmetric] by simp
  qed
qed

theorem sufficient_stock_saves_batch_witness:
  "fst (insert_orders_from_bot (deplete_inventory_from_order (faulty pizza_world)) ''O1''
          [order_of ''Pizza'' 3] (Some MySQLConnection) pizza_world)
     = Inr (PyStr ''ok'')
   \<and> Order_Items (database (snd (insert_orders_from_bot
          (deplete_inventory_from_order (faulty pizza_world)) ''O1'' [order_of ''Pizza'' 3]
          (Some MySQLConnection) pizza_world)))
     = [(''O1'', 1, 3)]
   \<and> Ingredients (database (snd (insert_orders_from_bot
          (deplete_inventory_from_order (faulty pizza_world)) ''O1'' [order_of ''Pizza'' 3]
          (Some MySQLConnection) pizza_world))) 7
     = Some (cheese\<lparr>current_inventory := 4\<rparr>)"
proof -
  have td: "total_demand (database pizza_world) [(1, 3)] 7 = 6"
    by (simp add: total_demand_def recipe_lines_def pizza_world_def pizza_db_def)
  have iv: "involved (database pizza_world) [(1, 3)] = {7}"
    by (simp add: involved_def recipe_lines_def pizza_world_def pizza_db_def)
  have en: "\<forall>ing_id \<in> involved (database pizza_world) [(1, 3)].
                   \<forall>r. Ingredients (database pizza_world) ing_id = Some r
                        \<longrightarrow> total_demand (database pizza_world) [(1, 3)] ing_id
                              \<le> current_inventory r"
    by (simp add: iv td) (simp add: pizza_world_def pizza_db_def cheese_def)
  have cl: "uncommitted (database pizza_world) = []"
    by (simp add: pizza_world_def pizza_db_def)
  have nf: "\<forall>a. \<not> faulty pizza_world a" by (simp add: pizza_no_fault)
  from sufficient_stock_saves_batch [OF refl nf cl pizza_resolved [symmetric] en, of "''O1''"
      MySQLConnection]
  show ?thesis
    by (simp add: case_prod_beta pizza_resolved td)
       (simp add: pizza_world_def pizza_db_def cheese_def)
qed

text \<open>
  C3: from a database in which no stock is negative, for every batch, every connection and
  whatever accesses raise, no stock is negative after the workflow; and when the check of the
  engine has passed, no stock is negative after any number \<open>k\<close> of the decrements of its
  loop, which are the states of the ledger in between.
\<close>

theorem stock_never_negative:
  assumes nonneg: "stock_nonneg (database w)"
    and demand: "demand = aggregate_demand (database w)
                   (resolved_lines (meal_name_to_id (Meals (database w))) order_data)"
  shows "stock_nonneg (database (snd (insert_orders_from_bot (deplete_inventory_from_order flt)
                                        order_id order_data conn w)))
       \<and> (sufficient (database w) demand \<longrightarrow>
            (\<forall>k. stock_nonneg (snd (decrement_all flt (take k demand) (database w)))))"
proof -
  have "stock_nonneg (snd (deplete_inventory_from_order flt order_data (database w)))"
    using nonneg by (simp add: deplete_eq depletion_engine_nonneg)
  with nonneg insert_orders_from_bot_Ingredients
         [of "deplete_inventory_from_order flt" order_id order_data conn w]
  have A: "stock_nonneg (database (snd (insert_orders_from_bot (deplete_inventory_from_order flt)
                                        order_id order_data conn w)))"
    by (auto elim: stock_nonneg_cong)
  have B: "stock_nonneg (snd (decrement_all flt (take k demand) (database w)))"
    if s: "sufficient (database w) demand" for k
  proof -
    have "distinct (map fst demand)" by (simp add: demand distinct_aggregate)
    moreover from s have "\<forall>(i, x) \<in> set demand.
            \<forall>r. Ingredients (database w) i = Some r \<longrightarrow> x \<le> current_inventory r"
      by (simp add: sufficient_iff)
    ultimately have "distinct (map fst (take k demand))
       \<and> (\<forall>(i, x) \<in> set (take k demand).
             \<forall>r. Ingredients (database w) i = Some r \<longrightarrow> x \<le> current_inventory r)"
      by (rule take_sufficient)
    then show ?thesis using nonneg by (intro decrement_all_nonneg) simp_all
  qed
  from A B show ?thesis by blast
qed

theorem stock_never_negative_witness:
  "stock_nonneg (database (snd (insert_orders_from_bot (deplete_inventory_from_order no_faults)
                                  ''O1'' [order_of ''Pizza'' 3] (Some MySQLConnection)
                                  pizza_world)))
   \<and> stock_nonneg (snd (decrement_all no_faults (take 1 [(7, 6)]) (database pizza_world)))"
proof -
  have nn: "stock_nonneg (database pizza_world)"
    by (simp add: stock_nonneg_def pizza_world_def pizza_db_def cheese_def)
  have ag: "aggregate_demand (database pizza_world)
              (resolved_lines (meal_name_to_id (Meals (database pizza_world)))
                 [order_of ''Pizza'' 3]) = [(7, 6)]"
    by (simp add: pizza_resolved)
       (simp add: aggregate_demand_def recipe_lines_def add_demand_def
          demand_of_def pizza_world_def pizza_db_def)
  have su: "sufficient (database pizza_world) [(7, 6)]"
    by (simp add: sufficient_def pizza_world_def pizza_db_def cheese_def)
  from stock_never_negative [OF nn ag [symmetric], of no_faults "''O1''" "Some MySQLConnection"] su
  show ?thesis by blast
qed

text \<open>
  C4: the engine checks and decrements the per-ingredient total over the whole batch. With
  no faults, it reports insufficient stock exactly when some ingredient of the demand has a
  stock below the sum, over all resolved lines and their recipes, of quantity per unit times
  ordered quantity; it then changes nothing. Otherwise it succeeds, and the stock of every
  ingredient has decreased by that sum, once: two lines that need the same ingredient, also
  two lines of the same meal, debit the sum of both requirements.
\<close>

theorem demand_is_aggregated:
  assumes nofault: "\<forall>a. \<not> flt a"
    and lines: "lines = resolved_lines (meal_name_to_id (Meals d)) order_data"
  shows "case depletion_engine flt order_data d of
           (out, d') \<Rightarrow>
             (out = Insufficient_stock
                \<longleftrightarrow> (\<exists>ing_id \<in> involved d lines.
                       \<exists>r. Ingredients d ing_id = Some r
                            \<and> current_inventory r < total_demand d lines ing_id))
             \<and> (out = Insufficient_stock \<longrightarrow> d' = d)
             \<and> (out \<noteq> Insufficient_stock \<longrightarrow>
                   out = Ok
                   \<and> (\<forall>ing_id. Ingredients d' ing_id
                         = map_option
                             (\<lambda>r. r\<lparr>current_inventory
                                      := current_inventory r - total_demand d lines ing_id\<rparr>)
                             (Ingredients d ing_id)))"
proof -
  define demand where "demand = aggregate_demand d lines"
  have suff: "sufficient d demand
                \<longleftrightarrow> \<not> (\<exists>ing_id \<in> involved d lines.
                       \<exists>r. Ingredients d ing_id = Some r
                            \<and> current_inventory r < total_demand d lines ing_id)"
  proof -
    have "sufficient d demand
            \<longleftrightarrow> (\<forall>i. i \<in> involved d lines
                     \<longrightarrow> (\<forall>r. Ingredients d i = Some r
                              \<longrightarrow> total_demand d lines i \<le> current_inventory r))"
      unfolding sufficient_iff demand_def by (simp add: Ball_def aggregate_entry)
    then show ?thesis by (auto simp: not_less)
  qed
  have eng: "depletion_engine flt order_data d
               = (if sufficient d demand then decrement_all flt demand d
                  else (Insufficient_stock, d))"
    using nofault by (simp add: depletion_engine_no_faults demand_def lines)
  have nu: "\<forall>(i, x) \<in> set demand. \<not> flt (Update_Inventory i)"
    using nofault by simp
  have dist: "distinct (map fst demand)"
    by (simp add: demand_def distinct_aggregate)
  from decrement_all_ok [OF nu dist, of d]
  have E: "fst (decrement_all flt demand d) = Ok"
    "\<And>j. Ingredients (snd (decrement_all flt demand d)) j
            = map_option (\<lambda>r. r\<lparr>current_inventory := current_inventory r - total_demand d lines j\<rparr>)
                (Ingredients d j)"
    by (simp_all add: demand_def demand_of_aggregate)
  show ?thesis
  proof (cases "sufficient d demand")
    case True
    with suff E show ?thesis
      unfolding eng case_prod_beta by simp
  next
    case False
    with suff show ?thesis
      unfolding eng case_prod_beta by simp
  qed
qed

theorem demand_is_aggregated_witness:
  "Ingredients (snd (depletion_engine no_faults [order_of ''Pizza'' 3, order_of ''Pizza'' 1]
                       pizza_db)) 7
     = Some (cheese\<lparr>current_inventory := 2\<rparr>)
   \<and> depletion_engine no_faults [order_of ''Pizza'' 3, order_of ''Pizza'' 3] pizza_db
     = (Insufficient_stock, pizza_db)"
proof -
  have nf: "\<forall>a. \<not> no_faults a" by (simp add: no_faults_def)
  have m: "meal_name_to_id (Meals pizza_db) (lower ''Pizza'') = Some 1"
    by (simp add: pizza_db_def meal_name_to_id_def)
  have rl: "resolved_lines (meal_name_to_id (Meals pizza_db))
              [order_of ''Pizza'' 3, order_of ''Pizza'' 1] = [(1, 3), (1, 1)]"
    "resolved_lines (meal_name_to_id (Meals pizza_db))
              [order_of ''Pizza'' 3, order_of ''Pizza'' 3] = [(1, 3), (1, 3)]"
    by (simp_all add: resolved_lines_def order_of_def m)
  have rc: "recipe_lines pizza_db 1 = [(7, 2)]"
    by (simp add: recipe_lines_def pizza_db_def)
  have inv: "involved pizza_db [(1, 3), (1, 1)] = {7}" "involved pizza_db [(1, 3), (1, 3)] = {7}"
    by (simp_all add: involved_def rc)
  have td: "total_demand pizza_db [(1, 3), (1, 1)] 7 = 8"
    "total_demand pizza_db [(1, 3), (1, 3)] 7 = 12"
    by (simp_all add: total_demand_def rc)
  have ch: "Ingredients pizza_db 7 = Some cheese" "current_inventory cheese = 10"
    by (simp_all add: pizza_db_def cheese_def)
  from demand_is_aggregated [OF nf rl(1) [symmetric]] demand_is_aggregated [OF nf rl(2) [symmetric]]
  show ?thesis
    by (simp add: case_prod_beta inv td ch prod_eq_iff)
qed

end
